theory Spec2Isabelle
  imports Complex_Main "HOL-Library.Word" "HOL-Library.Signed_Division"
begin

section \<open>Tile-map levels of engo's \<open>common\<close> package (\<open>common/level.go\<close>)\<close>

text \<open>
  The development embeds the coordinate strategies of a \<open>Level\<close>
  (\<open>setupOrientation\<close>, \<open>MapToPosition\<close>, \<open>PositionToMap\<close>), the atlas slicer
  \<open>createTileset\<close> and the layer assembler \<open>createLevelTiles\<close>.

  Conventions of the embedding:
  \<^item> A Go \<open>float32\<close> is the rational number it denotes and \<open>*\<close>, \<open>/\<close>, \<open>+\<close>,
    \<open>-\<close> are exact: rounding, infinities and NaN are outside the model. Every closed
    evaluation below works on dyadic values of a few bits, on which binary32 arithmetic
    is exact as well.
  \<^item> A Go \<open>int\<close> is the 64-bit two's complement integer, wide enough for every
    \<open>uint32\<close> tile id. The products of \<open>MapMaxBounds\<close>, which nothing bounds, wrap
    (\<open>int64\<close>). Loop counters and indices stay below a loop bound or a slice length,
    both of which fit the machine type, so they are plain integers. Integer \<open>/\<close> and
    \<open>%\<close> truncate toward zero (\<open>sdiv\<close>, \<open>smod\<close>) and panic on a zero divisor.
  \<^item> A pointer that the code never leaves nil is the value it points to; the one pointer
    that the code does leave nil (the \<open>Image\<close> of a blank tile, an unset function
    slot) is an \<open>option\<close>.
  \<^item> A function that mutates the Level takes it and returns it updated.
  \<^item> A returned \<open>error\<close> and a runtime panic are both values of \<open>failure\<close>, kept
    apart by their constructors.
\<close>

subsection \<open>Numbers\<close>

type_synonym float32 = rat
type_synonym float64 = rat


text \<open>The conversion \<open>float32(i)\<close>.\<close>

definition float32_of_int :: "int \<Rightarrow> float32" where
  "float32_of_int i = of_int i"

text \<open>The conversion \<open>int(f)\<close>: the fraction is discarded, truncating toward zero.\<close>

definition int_of_float32 :: "float32 \<Rightarrow> int" where
  "int_of_float32 f = (if 0 \<le> f then \<lfloor>f\<rfloor> else \<lceil>f\<rceil>)"

subsection \<open>Failures\<close>

datatype runtime_panic = IndexOutOfRange | NilDereference | IntegerDivideByZero

datatype failure =
    UnsupportedOrientation string  \<comment> \<open>the \<open>error\<close> built by \<open>fmt.Errorf\<close>, with the orientation it prints\<close>
  | Panic runtime_panic            \<comment> \<open>a Go runtime panic: the call does not return\<close>

text \<open>A failure that the caller receives as an \<open>error\<close> result, as opposed to a panic.\<close>

fun is_error_result :: "failure + 'a \<Rightarrow> bool" where
  "is_error_result (Inl (UnsupportedOrientation s)) = True"
| "is_error_result (Inl (Panic p)) = False"
| "is_error_result (Inr v) = False"

subsection \<open>Data model\<close>

text \<open>
  Modelled from the spec: \<open>engo.Point\<close> and \<open>engo.AABB\<close> are declared in the parent
  package, outside the files at hand; the spec gives a Point as a 2D floating-point
  coordinate and an AABB as a box of a min and a max Point.
\<close>

record Point =
  X :: float32
  Y :: float32

record AABB =
  Min :: Point
  Max :: Point

record Property =
  Type :: string
  Value :: string

text \<open>
  Modelled from the spec: the types \<open>Texture\<close> and \<open>TextureResource\<close> and the method
  \<open>Texture.Height\<close> are declared in another file of the package. The fields are those
  that \<open>createTileset\<close> writes and reads; the spec gives an atlas tile as a shared
  texture reference, the tile's pixel width and height and a UV rectangle, and
  \<open>Height()\<close> as that pixel height. The GL texture handle is an opaque number.
\<close>

record Texture =
  id_gl :: nat
  width :: float32
  height :: float32
  viewport :: AABB

definition Texture_Height :: "Texture \<Rightarrow> float32" where
  "Texture_Height t = Texture.height t"

record TextureResource =
  Texture :: nat
  Width :: float32
  Height :: float32

record tile =
  Point :: Point
  Image :: "Texture option"
  Properties :: "string \<rightharpoonup> Property"

record tilesheet =
  Image :: TextureResource
  TileWidth :: int
  TileHeight :: int
  Firstgid :: int
  Properties :: "string \<rightharpoonup> Property"

record layer =
  Name :: string
  Width :: int
  Height :: int
  TileMapping :: "32 word list"
  Properties :: "string \<rightharpoonup> Property"

text \<open>
  The embedded \<open>*Level\<close> of a TileLayer is a back-reference to the Level that the
  assembler already threads through; it is not a field here.
\<close>

record TileLayer =
  Name :: string
  Width :: int
  Height :: int
  Tiles :: "tile list"
  Properties :: "string \<rightharpoonup> Property"

record ImageLayer =
  Name :: string
  Width :: int
  Height :: int
  Source :: string
  Images :: "tile list"

record Object =
  Id :: int
  Name :: string
  Type :: string
  X :: float64
  Y :: float64
  Width :: int
  Height :: int
  Properties :: "string \<rightharpoonup> Property"

record PolylineObject =
  Id :: int
  Name :: string
  Type :: string
  X :: float64
  Y :: float64
  Points :: string
  LineBounds :: "(Point \<times> Point) list"

record ObjectLayer =
  Name :: string
  OffSetX :: float32
  OffSetY :: float32
  Objects :: "Object list"
  PolyObjects :: "PolylineObject list"
  Properties :: "string \<rightharpoonup> Property"

text \<open>
  The closures stored in \<open>MapToPoint\<close> and \<open>PointToMap\<close> capture the four floats
  computed when they are built, so they are functions on points. The closures stored
  in \<open>MapMaxBounds\<close> capture the Level pointer and read its fields when called: the
  slot records which of the three closures it holds, and \<open>callMapMaxBounds\<close> runs it
  on the Level of the moment.
\<close>

datatype MapMaxBoundsFn = OrthogonalMaxBounds | IsometricMaxBounds | StaggeredMaxBounds

record Level =
  Orientation :: string
  MapToPoint :: "(Point \<Rightarrow> Point) option"
  PointToMap :: "(Point \<Rightarrow> Point) option"
  MapMaxBounds :: "MapMaxBoundsFn option"
  RenderOrder :: string
  width :: int
  height :: int
  Offset :: Point
  TileWidth :: int
  TileHeight :: int
  NextObjectId :: int
  TileLayers :: "TileLayer list"
  ImageLayers :: "ImageLayer list"
  ObjectLayers :: "ObjectLayer list"
  Properties :: "string \<rightharpoonup> Property"

subsection \<open>The orientation strategies (\<open>setupOrientation\<close>)\<close>

text \<open>
  Each closure assigns to the fields of the point it is given, one statement after the
  other; a later statement reads what an earlier one wrote.
\<close>

definition orthogonalMapToPoint :: "float32 \<Rightarrow> float32 \<Rightarrow> Point \<Rightarrow> Point" where
  "orthogonalMapToPoint tw th m =
     (let m = m\<lparr>Point.X := Point.X m * tw\<rparr>;
          m = m\<lparr>Point.Y := Point.Y m * th\<rparr>
      in m)"

definition orthogonalPointToMap :: "float32 \<Rightarrow> float32 \<Rightarrow> Point \<Rightarrow> Point" where
  "orthogonalPointToMap tw th p =
     (let p = p\<lparr>Point.X := Point.X p / tw\<rparr>;
          p = p\<lparr>Point.Y := Point.Y p / th\<rparr>
      in p)"

definition isometricMapToPoint :: "float32 \<Rightarrow> float32 \<Rightarrow> Point \<Rightarrow> Point" where
  "isometricMapToPoint hw hh m =
     (let m = m\<lparr>Point.X := (Point.X m - Point.Y m) * hw\<rparr>;
          m = m\<lparr>Point.Y := (Point.X m + Point.Y m) * hh\<rparr>
      in m)"

definition isometricPointToMap :: "float32 \<Rightarrow> float32 \<Rightarrow> Point \<Rightarrow> Point" where
  "isometricPointToMap tw th p =
     (let p = p\<lparr>Point.X := (Point.X p + Point.Y p) / tw\<rparr>;
          p = p\<lparr>Point.Y := (Point.Y p - Point.X p) / th\<rparr>
      in p)"

definition staggeredMapToPoint :: "float32 \<Rightarrow> float32 \<Rightarrow> float32 \<Rightarrow> Point \<Rightarrow> Point" where
  "staggeredMapToPoint tw hw hh m =
     (let staggerX = (if int_of_float32 (Point.Y m) smod 2 = 1 then hw else 0);
          m = m\<lparr>Point.X := (Point.X m * tw) + staggerX\<rparr>;
          m = m\<lparr>Point.Y := Point.Y m * hh\<rparr>
      in m)"

definition staggeredPointToMap :: "float32 \<Rightarrow> float32 \<Rightarrow> float32 \<Rightarrow> Point \<Rightarrow> Point" where
  "staggeredPointToMap tw th hw p =
     (let Y0 = Point.Y p;
          p = p\<lparr>Point.Y := (Point.Y p - Point.X p) / th\<rparr>;
          staggerX = (if int_of_float32 (Point.Y p) smod 2 = 1 then hw else 0);
          p = p\<lparr>Point.X := (Point.X p + Y0 - staggerX) / tw\<rparr>
      in p)"


text \<open>
  \<open>setupOrientation\<close> returns the error (\<open>None\<close> for Go's \<open>nil\<close>) and the Level as it
  leaves it.
\<close>

definition setupOrientation :: "Level \<Rightarrow> failure option \<times> Level" where
  "setupOrientation lvl =
     (let tw = float32_of_int (Level.TileWidth lvl);
          th = float32_of_int (Level.TileHeight lvl);
          hw = float32_of_int (Level.TileWidth lvl sdiv 2);
          hh = float32_of_int (Level.TileHeight lvl sdiv 2)
      in if Orientation lvl = ''orthogonal'' then
           (None, lvl\<lparr>MapToPoint := Some (orthogonalMapToPoint tw th),
                      PointToMap := Some (orthogonalPointToMap tw th),
                      MapMaxBounds := Some OrthogonalMaxBounds\<rparr>)
         else if Orientation lvl = ''isometric'' then
           (None, lvl\<lparr>MapToPoint := Some (isometricMapToPoint hw hh),
                      PointToMap := Some (isometricPointToMap tw th),
                      MapMaxBounds := Some IsometricMaxBounds\<rparr>)
         else if Orientation lvl = ''staggered'' then
           (None, lvl\<lparr>MapToPoint := Some (staggeredMapToPoint tw hw hh),
                      PointToMap := Some (staggeredPointToMap tw th hw),
                      MapMaxBounds := Some StaggeredMaxBounds\<rparr>)
         else (Some (UnsupportedOrientation (Orientation lvl)), lvl))"

subsection \<open>The query surface (\<open>MapToPosition\<close>, \<open>PositionToMap\<close>)\<close>

text \<open>
  Calling a function slot: a nil slot panics. \<open>MapToPosition\<close> and \<open>PositionToMap\<close>
  reach the call only with the slot they tested (or just filled) set.
\<close>

definition callPointFn :: "(Point \<Rightarrow> Point) option \<Rightarrow> Point \<Rightarrow> failure + Point" where
  "callPointFn slot p = (case slot of None \<Rightarrow> Inl (Panic NilDereference) | Some f \<Rightarrow> Inr (f p))"

definition MapToPosition :: "Level \<Rightarrow> Point \<Rightarrow> (failure + Point) \<times> Level" where
  "MapToPosition lvl mp =
     (case (if MapToPoint lvl = None then setupOrientation lvl else (None, lvl)) of
        (Some err, lvl') \<Rightarrow> (Inl err, lvl')
      | (None, lvl') \<Rightarrow>
          (let mpc = \<lparr>Point.X = Point.X mp, Point.Y = Point.Y mp\<rparr>
           in case callPointFn (MapToPoint lvl') mpc of
                Inl e \<Rightarrow> (Inl e, lvl')
              | Inr mpc \<Rightarrow>
                  (let mpc = mpc\<lparr>Point.X := Point.X mpc + Point.X (Offset lvl')\<rparr>;
                       mpc = mpc\<lparr>Point.Y := Point.Y mpc + Point.Y (Offset lvl')\<rparr>
                   in (Inr mpc, lvl'))))"

definition PositionToMap :: "Level \<Rightarrow> Point \<Rightarrow> (failure + Point) \<times> Level" where
  "PositionToMap lvl p =
     (case (if PointToMap lvl = None then setupOrientation lvl else (None, lvl)) of
        (Some err, lvl') \<Rightarrow> (Inl err, lvl')
      | (None, lvl') \<Rightarrow>
          (let mp = \<lparr>Point.X = Point.X p, Point.Y = Point.Y p\<rparr>;
               mp = mp\<lparr>Point.X := Point.X mp - Point.X (Offset lvl')\<rparr>;
               mp = mp\<lparr>Point.Y := Point.Y mp - Point.Y (Offset lvl')\<rparr>
           in (callPointFn (PointToMap lvl') mp, lvl')))"

subsection \<open>The atlas slicer (\<open>createTileset\<close>)\<close>

text \<open>
  The body of the inner loop, for tile \<open>i\<close> of a sheet whose \<open>setWidth\<close> has been
  computed. The first statement divides by \<open>int(setWidth)\<close>.
\<close>

definition createTileset_tile :: "tilesheet \<Rightarrow> float32 \<Rightarrow> int \<Rightarrow> failure + tile" where
  "createTileset_tile sheet setWidth i =
     (let tw = float32_of_int (tilesheet.TileWidth sheet);
          th = float32_of_int (tilesheet.TileHeight sheet)
      in if int_of_float32 setWidth = 0 then Inl (Panic IntegerDivideByZero)
         else
           (let x = float32_of_int (i smod int_of_float32 setWidth) * tw;
                y = float32_of_int (i sdiv int_of_float32 setWidth) * th;
                invTexWidth = 1 / TextureResource.Width (tilesheet.Image sheet);
                invTexHeight = 1 / TextureResource.Height (tilesheet.Image sheet);
                u = x * invTexWidth;
                v = y * invTexHeight;
                u2 = (x + tw) * invTexWidth;
                v2 = (y + th) * invTexHeight
            in Inr \<lparr>tile.Point = \<lparr>Point.X = 0, Point.Y = 0\<rparr>,
                    tile.Image = Some
                      \<lparr>id_gl = TextureResource.Texture (tilesheet.Image sheet),
                       Texture.width = tw,
                       Texture.height = th,
                       viewport = \<lparr>Min = \<lparr>Point.X = u, Point.Y = v\<rparr>,
                                   Max = \<lparr>Point.X = u2, Point.Y = v2\<rparr>\<rparr>\<rparr>,
                    tile.Properties = Map.empty\<rparr>))"

text \<open>The inner loop \<open>for i := 0; i < totalTiles; i++\<close>, appending to \<open>tileset\<close>.\<close>

function createTileset_tiles ::
  "tilesheet \<Rightarrow> float32 \<Rightarrow> int \<Rightarrow> int \<Rightarrow> tile list \<Rightarrow> failure + tile list" where
  "createTileset_tiles sheet setWidth totalTiles i tileset =
     (if i < totalTiles then
        (case createTileset_tile sheet setWidth i of
           Inl e \<Rightarrow> Inl e
         | Inr t \<Rightarrow> createTileset_tiles sheet setWidth totalTiles (i + 1) (tileset @ [t]))
      else Inr tileset)"
  by pat_completeness auto
termination
  by (relation "measure (\<lambda>(sheet, setWidth, totalTiles, i, tileset). nat (totalTiles - i))") auto

declare createTileset_tiles.simps [simp del]

text \<open>One round of the outer loop: the grid of the sheet, then its tiles.\<close>

definition createTileset_sheet :: "tilesheet \<Rightarrow> tile list \<Rightarrow> failure + tile list" where
  "createTileset_sheet sheet tileset =
     (let tw = float32_of_int (tilesheet.TileWidth sheet);
          th = float32_of_int (tilesheet.TileHeight sheet);
          setWidth = TextureResource.Width (tilesheet.Image sheet) / tw;
          setHeight = TextureResource.Height (tilesheet.Image sheet) / th;
          totalTiles = int_of_float32 (setWidth * setHeight)
      in createTileset_tiles sheet setWidth totalTiles 0 tileset)"

fun createTileset_sheets :: "tilesheet list \<Rightarrow> tile list \<Rightarrow> failure + tile list" where
  "createTileset_sheets [] tileset = Inr tileset"
| "createTileset_sheets (sheet # sheets) tileset =
     (case createTileset_sheet sheet tileset of
        Inl e \<Rightarrow> Inl e
      | Inr tileset' \<Rightarrow> createTileset_sheets sheets tileset')"

definition createTileset :: "Level \<Rightarrow> tilesheet list \<Rightarrow> failure + tile list" where
  "createTileset lvl sheets = createTileset_sheets sheets []"

subsection \<open>The layer assembler (\<open>createLevelTiles\<close>)\<close>

text \<open>
  The body of the inner loop for the cell in column \<open>x\<close> of row \<open>i\<close>. Indexing
  \<open>mapping\<close> or \<open>ts\<close> out of range panics. The error of \<open>MapToPosition\<close> is
  discarded and the nil point it comes with is dereferenced by the next statement.
\<close>

definition createLevelTiles_cell ::
  "Level \<Rightarrow> 32 word list \<Rightarrow> tile list \<Rightarrow> int \<Rightarrow> int \<Rightarrow> failure + (tile \<times> Level)" where
  "createLevelTiles_cell lvl mapping ts i x =
     (let idx = x + i * Level.width lvl;
          t = \<lparr>tile.Point = \<lparr>Point.X = 0, Point.Y = 0\<rparr>, tile.Image = None,
               tile.Properties = Map.empty\<rparr>
      in if idx < 0 \<or> int (length mapping) \<le> idx then Inl (Panic IndexOutOfRange)
         else
           (let tileIdx = uint (mapping ! nat idx) - 1
            in if tileIdx \<ge> 0 then
                 (if int (length ts) \<le> tileIdx then Inl (Panic IndexOutOfRange)
                  else
                    (let t = t\<lparr>tile.Image := tile.Image (ts ! nat tileIdx)\<rparr>
                     in case MapToPosition lvl
                               \<lparr>Point.X = float32_of_int x, Point.Y = float32_of_int i\<rparr> of
                          (Inl (UnsupportedOrientation s), lvl') \<Rightarrow> Inl (Panic NilDereference)
                        | (Inl (Panic p), lvl') \<Rightarrow> Inl (Panic p)
                        | (Inr tp, lvl') \<Rightarrow>
                            (case tile.Image t of
                               None \<Rightarrow> Inl (Panic NilDereference)
                             | Some img \<Rightarrow>
                                 (let tp = tp\<lparr>Point.Y := Point.Y tp
                                             - (Texture_Height img
                                                - float32_of_int (Level.TileHeight lvl'))\<rparr>;
                                      t = t\<lparr>tile.Point := tp\<rparr>
                                  in Inr (t, lvl')))))
               else Inr (t, lvl)))"

text \<open>
  A cell never changes the grid of the Level: the only writes are those of
  \<open>setupOrientation\<close>, to the three function slots.
\<close>

lemma setupOrientation_grid:
  "setupOrientation lvl = (r, lvl') \<Longrightarrow>
     Level.width lvl' = Level.width lvl \<and> Level.height lvl' = Level.height lvl"
  by (auto simp: setupOrientation_def Let_def split: if_splits)

lemma MapToPosition_grid:
  "MapToPosition lvl mp = (r, lvl') \<Longrightarrow>
     Level.width lvl' = Level.width lvl \<and> Level.height lvl' = Level.height lvl"
  by (auto simp: MapToPosition_def Let_def split: if_splits prod.splits option.splits sum.splits
           dest: setupOrientation_grid)

lemma createLevelTiles_cell_grid:
  "createLevelTiles_cell lvl mapping ts i x = Inr (t, lvl') \<Longrightarrow>
     Level.width lvl' = Level.width lvl \<and> Level.height lvl' = Level.height lvl"
  by (auto simp: createLevelTiles_cell_def Let_def
           split: if_splits prod.splits option.splits sum.splits failure.splits
           dest: MapToPosition_grid)

text \<open>The inner loop \<open>for x := 0; x < lvl.width; x++\<close> of row \<open>i\<close>.\<close>

function createLevelTiles_row ::
  "Level \<Rightarrow> 32 word list \<Rightarrow> tile list \<Rightarrow> int \<Rightarrow> int \<Rightarrow> tile list
     \<Rightarrow> failure + (tile list \<times> Level)" where
  "createLevelTiles_row lvl mapping ts i x tilemap =
     (if x < Level.width lvl then
        (case createLevelTiles_cell lvl mapping ts i x of
           Inl e \<Rightarrow> Inl e
         | Inr (t, lvl') \<Rightarrow> createLevelTiles_row lvl' mapping ts i (x + 1) (tilemap @ [t]))
      else Inr (tilemap, lvl))"
  by pat_completeness auto
termination
  by (relation "measure (\<lambda>(lvl, mapping, ts, i, x, tilemap). nat (Level.width lvl - x))")
     (auto dest: createLevelTiles_cell_grid)

declare createLevelTiles_row.simps [simp del]

lemma createLevelTiles_row_grid:
  "createLevelTiles_row lvl mapping ts i x tilemap = Inr (tilemap', lvl') \<Longrightarrow>
     Level.width lvl' = Level.width lvl \<and> Level.height lvl' = Level.height lvl"
proof (induction lvl mapping ts i x tilemap rule: createLevelTiles_row.induct)
  case (1 lvl mapping ts i x tilemap)
  show ?case
  proof (cases "x < Level.width lvl")
    case False
    with "1.prems" show ?thesis by (simp add: createLevelTiles_row.simps)
  next
    case True
    with "1.prems" obtain t l where
      c: "createLevelTiles_cell lvl mapping ts i x = Inr (t, l)" and
      r: "createLevelTiles_row l mapping ts i (x + 1) (tilemap @ [t]) = Inr (tilemap', lvl')"
      by (auto simp: createLevelTiles_row.simps [of lvl] split: sum.splits)
    from "1.IH" [OF True c refl r] createLevelTiles_cell_grid [OF c]
    show ?thesis by simp
  qed
qed

text \<open>The outer loop \<open>for i := 0; i < lvl.height; i++\<close>.\<close>

function createLevelTiles_rows ::
  "Level \<Rightarrow> 32 word list \<Rightarrow> tile list \<Rightarrow> int \<Rightarrow> tile list
     \<Rightarrow> failure + (tile list \<times> Level)" where
  "createLevelTiles_rows lvl mapping ts i tilemap =
     (if i < Level.height lvl then
        (case createLevelTiles_row lvl mapping ts i 0 tilemap of
           Inl e \<Rightarrow> Inl e
         | Inr (tilemap', lvl') \<Rightarrow> createLevelTiles_rows lvl' mapping ts (i + 1) tilemap')
      else Inr (tilemap, lvl))"
  by pat_completeness auto
termination
  by (relation "measure (\<lambda>(lvl, mapping, ts, i, tilemap). nat (Level.height lvl - i))")
     (auto dest: createLevelTiles_row_grid)

declare createLevelTiles_rows.simps [simp del]

text \<open>
  The loop over the layers, appending one TileLayer each; the \<open>Properties\<close> of the new
  TileLayer stay nil.
\<close>

fun createLevelTiles_layers ::
  "Level \<Rightarrow> layer list \<Rightarrow> tile list \<Rightarrow> TileLayer list
     \<Rightarrow> failure + (TileLayer list \<times> Level)" where
  "createLevelTiles_layers lvl [] ts levelTileLayers = Inr (levelTileLayers, lvl)"
| "createLevelTiles_layers lvl (layer # layers) ts levelTileLayers =
     (case createLevelTiles_rows lvl (TileMapping layer) ts 0 [] of
        Inl e \<Rightarrow> Inl e
      | Inr (tilemap, lvl') \<Rightarrow>
          createLevelTiles_layers lvl' layers ts
            (levelTileLayers @
               [\<lparr>TileLayer.Name = layer.Name layer,
                 TileLayer.Width = layer.Width layer,
                 TileLayer.Height = layer.Height layer,
                 Tiles = tilemap,
                 TileLayer.Properties = Map.empty\<rparr>]))"

definition createLevelTiles ::
  "Level \<Rightarrow> layer list \<Rightarrow> tile list \<Rightarrow> failure + (TileLayer list \<times> Level)" where
  "createLevelTiles lvl layers ts = createLevelTiles_layers lvl layers ts []"

subsection \<open>What the assembler computes\<close>

text \<open>
  The Level as \<open>MapToPosition\<close> leaves it: with the slots that \<open>setupOrientation\<close>
  fills when \<open>MapToPoint\<close> is nil and the orientation is known, unchanged otherwise.
\<close>

definition resolveOrientation :: "Level \<Rightarrow> Level" where
  "resolveOrientation lvl = (if MapToPoint lvl = None then snd (setupOrientation lvl) else lvl)"

text \<open>The tile that the loop body appends for a cell, without the Level it leaves.\<close>

definition createLevelTiles_tile ::
  "Level \<Rightarrow> 32 word list \<Rightarrow> tile list \<Rightarrow> int \<Rightarrow> int \<Rightarrow> failure + tile" where
  "createLevelTiles_tile lvl mapping ts i x = map_sum id fst (createLevelTiles_cell lvl mapping ts i x)"

lemma setupOrientation_cases:
  "(setupOrientation lvl = (Some (UnsupportedOrientation (Orientation lvl)), lvl)
      \<and> Orientation lvl \<notin> {''orthogonal'', ''isometric'', ''staggered''})
   \<or> (\<exists>m p b. setupOrientation lvl =
          (None, lvl\<lparr>MapToPoint := Some m, PointToMap := Some p, MapMaxBounds := Some b\<rparr>)
        \<and> Orientation lvl \<in> {''orthogonal'', ''isometric'', ''staggered''})"
  by (auto simp: setupOrientation_def Let_def intro!: exI)

lemma resolveOrientation_idem:
  "resolveOrientation (resolveOrientation lvl) = resolveOrientation lvl"
  using setupOrientation_cases [of lvl]
  by (auto simp: resolveOrientation_def)

lemma resolveOrientation_fields:
  "Level.width (resolveOrientation lvl) = Level.width lvl"
  "Level.height (resolveOrientation lvl) = Level.height lvl"
  "Level.TileHeight (resolveOrientation lvl) = Level.TileHeight lvl"
  "Offset (resolveOrientation lvl) = Offset lvl"
  using setupOrientation_cases [of lvl]
  by (auto simp: resolveOrientation_def)

lemma Point_eta: "\<lparr>Point.X = Point.X p, Point.Y = Point.Y p\<rparr> = (p::Point)"
  by (cases p) simp

lemma Point_update_both: "(p::Point)\<lparr>Point.X := a, Point.Y := b\<rparr> = \<lparr>Point.X = a, Point.Y = b\<rparr>"
  by (cases p) simp

lemma MapToPosition_resolve:
  "MapToPosition lvl mp =
     (case MapToPoint (resolveOrientation lvl) of
        None \<Rightarrow> (Inl (UnsupportedOrientation (Orientation lvl)), lvl)
      | Some f \<Rightarrow>
          (Inr \<lparr>Point.X = Point.X (f mp) + Point.X (Offset lvl),
                Point.Y = Point.Y (f mp) + Point.Y (Offset lvl)\<rparr>,
           resolveOrientation lvl))"
  using setupOrientation_cases [of lvl]
  by (auto simp: MapToPosition_def resolveOrientation_def callPointFn_def Let_def
                 Point_eta Point_update_both)

lemma createLevelTiles_cell_resolve:
  "createLevelTiles_cell lvl mapping ts i x = Inr (t, lvl') \<Longrightarrow>
     lvl' = lvl \<or> lvl' = resolveOrientation lvl"
  by (auto simp: createLevelTiles_cell_def MapToPosition_resolve Let_def
           split: if_splits option.splits)

lemma createLevelTiles_tile_resolve:
  "createLevelTiles_tile (resolveOrientation lvl) mapping ts i x
     = createLevelTiles_tile lvl mapping ts i x"
  by (auto simp: createLevelTiles_tile_def createLevelTiles_cell_def MapToPosition_resolve Let_def
                 resolveOrientation_idem resolveOrientation_fields
           split: if_splits option.splits)


lemma createLevelTiles_tile_Inr:
  "createLevelTiles_cell l mapping ts i x = Inr (t, l') \<Longrightarrow>
   l = lvl0 \<or> l = resolveOrientation lvl0 \<Longrightarrow>
   createLevelTiles_tile lvl0 mapping ts i x = Inr t \<and> (l' = lvl0 \<or> l' = resolveOrientation lvl0)"
proof -
  assume c: "createLevelTiles_cell l mapping ts i x = Inr (t, l')"
    and l: "l = lvl0 \<or> l = resolveOrientation lvl0"
  from c have "createLevelTiles_tile l mapping ts i x = Inr t"
    by (simp add: createLevelTiles_tile_def)
  with l have t: "createLevelTiles_tile lvl0 mapping ts i x = Inr t"
    by (auto simp: createLevelTiles_tile_resolve)
  from createLevelTiles_cell_resolve [OF c] l
  have "l' = lvl0 \<or> l' = resolveOrientation lvl0"
    by (auto simp: resolveOrientation_idem)
  with t show ?thesis by simp
qed

lemma createLevelTiles_row_spec:
  "createLevelTiles_row l mapping ts i x tilemap = Inr (tilemap', l') \<Longrightarrow>
   l = lvl0 \<or> l = resolveOrientation lvl0 \<Longrightarrow>
   (l' = lvl0 \<or> l' = resolveOrientation lvl0) \<and>
   (\<exists>new. tilemap' = tilemap @ new \<and> length new = nat (Level.width lvl0 - x) \<and>
      (\<forall>j<length new. createLevelTiles_tile lvl0 mapping ts i (x + int j) = Inr (new ! j)))"
proof (induction l mapping ts i x tilemap rule: createLevelTiles_row.induct)
  case (1 lvl mapping ts i x tilemap)
  have w: "Level.width lvl = Level.width lvl0"
    using "1.prems"(2) by (auto simp: resolveOrientation_fields)
  show ?case
  proof (cases "x < Level.width lvl")
    case False
    with "1.prems" w show ?thesis by (simp add: createLevelTiles_row.simps)
  next
    case True
    with "1.prems" obtain t l where
      c: "createLevelTiles_cell lvl mapping ts i x = Inr (t, l)" and
      r: "createLevelTiles_row l mapping ts i (x + 1) (tilemap @ [t]) = Inr (tilemap', l')"
      by (auto simp: createLevelTiles_row.simps [of lvl] split: sum.splits)
    from createLevelTiles_tile_Inr [OF c "1.prems"(2)]
    have t: "createLevelTiles_tile lvl0 mapping ts i x = Inr t"
      and l: "l = lvl0 \<or> l = resolveOrientation lvl0" by simp_all
    from "1.IH" [OF True c refl r l] obtain new where
      l': "l' = lvl0 \<or> l' = resolveOrientation lvl0" and
      new: "tilemap' = (tilemap @ [t]) @ new" "length new = nat (Level.width lvl0 - (x + 1))"
        "\<forall>j<length new. createLevelTiles_tile lvl0 mapping ts i (x + 1 + int j) = Inr (new ! j)"
      by blast
    have len: "length (t # new) = nat (Level.width lvl0 - x)"
      using new(2) True w by simp
    have nth: "createLevelTiles_tile lvl0 mapping ts i (x + int j) = Inr ((t # new) ! j)"
      if "j < length (t # new)" for j
    proof (cases j)
      case 0
      with t show ?thesis by simp
    next
      case (Suc k)
      with that have "k < length new" by simp
      with new(3) have a: "createLevelTiles_tile lvl0 mapping ts i (x + 1 + int k) = Inr (new ! k)"
        by blast
      have e: "x + int (Suc k) = x + 1 + int k" by simp
      show ?thesis by (simp only: Suc e nth_Cons_Suc a)
    qed
    from new(1) have "tilemap' = tilemap @ (t # new)" by simp
    with l' len nth show ?thesis by blast
  qed
qed


lemma createLevelTiles_rows_spec:
  "createLevelTiles_rows l mapping ts i tilemap = Inr (tilemap', l') \<Longrightarrow>
   l = lvl0 \<or> l = resolveOrientation lvl0 \<Longrightarrow>
   (l' = lvl0 \<or> l' = resolveOrientation lvl0) \<and>
   (\<exists>new. tilemap' = tilemap @ new \<and>
      length new = nat (Level.height lvl0 - i) * nat (Level.width lvl0) \<and>
      (\<forall>r<nat (Level.height lvl0 - i). \<forall>c<nat (Level.width lvl0).
         createLevelTiles_tile lvl0 mapping ts (i + int r) (int c)
           = Inr (new ! (r * nat (Level.width lvl0) + c))))"
proof (induction l mapping ts i tilemap rule: createLevelTiles_rows.induct)
  case (1 lvl mapping ts i tilemap)
  define W where "W = nat (Level.width lvl0)"
  have h: "Level.height lvl = Level.height lvl0"
    using "1.prems"(2) by (auto simp: resolveOrientation_fields)
  show ?case
  proof (cases "i < Level.height lvl")
    case False
    with "1.prems" h show ?thesis by (simp add: createLevelTiles_rows.simps)
  next
    case True
    with "1.prems" obtain tm l where
      row: "createLevelTiles_row lvl mapping ts i 0 tilemap = Inr (tm, l)" and
      rest: "createLevelTiles_rows l mapping ts (i + 1) tm = Inr (tilemap', l')"
      by (auto simp: createLevelTiles_rows.simps [of lvl] split: sum.splits)
    from createLevelTiles_row_spec [OF row "1.prems"(2)] obtain new1 where
      l: "l = lvl0 \<or> l = resolveOrientation lvl0" and
      new1: "tm = tilemap @ new1" "length new1 = W"
        "\<forall>j<length new1. createLevelTiles_tile lvl0 mapping ts i (0 + int j) = Inr (new1 ! j)"
      unfolding W_def by auto
    from "1.IH" [OF True row refl rest l] obtain new2 where
      l': "l' = lvl0 \<or> l' = resolveOrientation lvl0" and
      new2: "tilemap' = tm @ new2" "length new2 = nat (Level.height lvl0 - (i + 1)) * W"
        "\<forall>r<nat (Level.height lvl0 - (i + 1)). \<forall>c<W.
           createLevelTiles_tile lvl0 mapping ts (i + 1 + int r) (int c)
             = Inr (new2 ! (r * W + c))"
      unfolding W_def by blast
    have suc: "nat (Level.height lvl0 - i) = Suc (nat (Level.height lvl0 - (i + 1)))"
      using True h by simp
    have len: "length (new1 @ new2) = nat (Level.height lvl0 - i) * W"
      using new1(2) new2(2) suc by simp
    have nth: "createLevelTiles_tile lvl0 mapping ts (i + int r) (int c)
                 = Inr ((new1 @ new2) ! (r * W + c))"
      if "r < nat (Level.height lvl0 - i)" "c < W" for r c
    proof (cases r)
      case 0
      with that new1(2,3) show ?thesis by (simp add: nth_append)
    next
      case (Suc k)
      with that suc have k: "k < nat (Level.height lvl0 - (i + 1))" by simp
      with new2(3) that(2)
      have a: "createLevelTiles_tile lvl0 mapping ts (i + 1 + int k) (int c) = Inr (new2 ! (k * W + c))"
        by blast
      have e: "i + int r = i + 1 + int k" using Suc by simp
      have n: "(new1 @ new2) ! (r * W + c) = new2 ! (k * W + c)"
        using Suc new1(2) by (simp add: nth_append)
      show ?thesis by (simp only: e n a)
    qed
    from new1(1) new2(1) have "tilemap' = tilemap @ (new1 @ new2)" by simp
    with l' len nth show ?thesis unfolding W_def by blast
  qed
qed


text \<open>
  A tile sequence is the assembly of a mapping when it holds, row after row, the tile of
  every cell of the Level's grid.
\<close>

definition assembled :: "Level \<Rightarrow> 32 word list \<Rightarrow> tile list \<Rightarrow> tile list \<Rightarrow> bool" where
  "assembled lvl mapping ts tiles \<longleftrightarrow>
     length tiles = nat (Level.height lvl) * nat (Level.width lvl) \<and>
     (\<forall>r<nat (Level.height lvl). \<forall>c<nat (Level.width lvl).
        createLevelTiles_tile lvl mapping ts (int r) (int c)
          = Inr (tiles ! (r * nat (Level.width lvl) + c)))"

lemma createLevelTiles_rows_assembled:
  assumes "createLevelTiles_rows l mapping ts 0 [] = Inr (tilemap, l')"
    and "l = lvl0 \<or> l = resolveOrientation lvl0"
  shows "(l' = lvl0 \<or> l' = resolveOrientation lvl0) \<and> assembled lvl0 mapping ts tilemap"
  using createLevelTiles_rows_spec [OF assms] by (auto simp: assembled_def)

lemma createLevelTiles_layers_spec:
  "createLevelTiles_layers l layers ts acc = Inr (tls, l') \<Longrightarrow>
   l = lvl0 \<or> l = resolveOrientation lvl0 \<Longrightarrow>
   (l' = lvl0 \<or> l' = resolveOrientation lvl0) \<and>
   (\<exists>new. tls = acc @ new \<and> length new = length layers \<and>
      (\<forall>k<length layers.
         TileLayer.Name (new ! k) = layer.Name (layers ! k) \<and>
         TileLayer.Width (new ! k) = layer.Width (layers ! k) \<and>
         TileLayer.Height (new ! k) = layer.Height (layers ! k) \<and>
         assembled lvl0 (TileMapping (layers ! k)) ts (Tiles (new ! k))))"
proof (induction layers arbitrary: l acc)
  case Nil
  then show ?case by simp
next
  case (Cons layer layers)
  from Cons.prems(1) obtain tilemap l1 where
    rows: "createLevelTiles_rows l (TileMapping layer) ts 0 [] = Inr (tilemap, l1)" and
    rest: "createLevelTiles_layers l1 layers ts
             (acc @ [\<lparr>TileLayer.Name = layer.Name layer, TileLayer.Width = layer.Width layer,
                      TileLayer.Height = layer.Height layer, Tiles = tilemap,
                      TileLayer.Properties = Map.empty\<rparr>]) = Inr (tls, l')"
    by (auto split: sum.splits)
  define tl where "tl = \<lparr>TileLayer.Name = layer.Name layer, TileLayer.Width = layer.Width layer,
                      TileLayer.Height = layer.Height layer, Tiles = tilemap,
                      TileLayer.Properties = Map.empty\<rparr>"
  from createLevelTiles_rows_assembled [OF rows Cons.prems(2)]
  have l1: "l1 = lvl0 \<or> l1 = resolveOrientation lvl0"
    and asm: "assembled lvl0 (TileMapping layer) ts tilemap" by simp_all
  from Cons.IH [OF rest l1] obtain new where
    l': "l' = lvl0 \<or> l' = resolveOrientation lvl0" and
    new: "tls = (acc @ [tl]) @ new" "length new = length layers"
      "\<forall>k<length layers.
         TileLayer.Name (new ! k) = layer.Name (layers ! k) \<and>
         TileLayer.Width (new ! k) = layer.Width (layers ! k) \<and>
         TileLayer.Height (new ! k) = layer.Height (layers ! k) \<and>
         assembled lvl0 (TileMapping (layers ! k)) ts (Tiles (new ! k))"
    unfolding tl_def by blast
  have "TileLayer.Name ((tl # new) ! k) = layer.Name ((layer # layers) ! k) \<and>
        TileLayer.Width ((tl # new) ! k) = layer.Width ((layer # layers) ! k) \<and>
        TileLayer.Height ((tl # new) ! k) = layer.Height ((layer # layers) ! k) \<and>
        assembled lvl0 (TileMapping ((layer # layers) ! k)) ts (Tiles ((tl # new) ! k))"
    if "k < length (layer # layers)" for k
  proof (cases k)
    case 0
    with asm show ?thesis by (simp add: tl_def)
  next
    case (Suc j)
    with that new(3) show ?thesis by simp
  qed
  moreover from new(1) have "tls = acc @ (tl # new)" by simp
  moreover from new(2) have "length (tl # new) = length (layer # layers)" by simp
  ultimately show ?case using l' by blast
qed

lemma createLevelTiles_spec:
  assumes "createLevelTiles lvl layers ts = Inr (tls, lvl')"
  shows "(lvl' = lvl \<or> lvl' = resolveOrientation lvl) \<and> length tls = length layers \<and>
      (\<forall>k<length layers.
         TileLayer.Name (tls ! k) = layer.Name (layers ! k) \<and>
         TileLayer.Width (tls ! k) = layer.Width (layers ! k) \<and>
         TileLayer.Height (tls ! k) = layer.Height (layers ! k) \<and>
         assembled lvl (TileMapping (layers ! k)) ts (Tiles (tls ! k)))"
  using createLevelTiles_layers_spec [of lvl layers ts "[]" tls lvl' lvl] assms
  by (auto simp: createLevelTiles_def)

text \<open>The tile of a blank cell: Go's zero value, no image and the zero point.\<close>

definition blankTile :: tile where
  "blankTile = \<lparr>tile.Point = \<lparr>Point.X = 0, Point.Y = 0\<rparr>, tile.Image = None,
                 tile.Properties = Map.empty\<rparr>"

lemma row_major_index:
  "0 \<le> x \<Longrightarrow> 0 \<le> i \<Longrightarrow> 0 \<le> w \<Longrightarrow> nat (x + i * w) = nat i * nat w + nat x"
  by (simp add: nat_add_distrib nat_mult_distrib)

lemma assembled_nth:
  assumes "assembled lvl mapping ts tiles"
    and "0 \<le> x" "x < Level.width lvl" "0 \<le> i" "i < Level.height lvl"
  shows "createLevelTiles_tile lvl mapping ts i x = Inr (tiles ! nat (x + i * Level.width lvl))"
proof -
  have "nat i < nat (Level.height lvl)" "nat x < nat (Level.width lvl)"
    using assms(2-5) by simp_all
  with assms(1) have "createLevelTiles_tile lvl mapping ts (int (nat i)) (int (nat x))
      = Inr (tiles ! (nat i * nat (Level.width lvl) + nat x))"
    unfolding assembled_def by blast
  moreover have "nat (x + i * Level.width lvl) = nat i * nat (Level.width lvl) + nat x"
    using assms(2-5) by (intro row_major_index) simp_all
  ultimately show ?thesis using assms(2,4) by simp
qed

lemma assembled_length:
  "assembled lvl mapping ts tiles \<Longrightarrow> 0 \<le> Level.width lvl \<Longrightarrow> 0 \<le> Level.height lvl \<Longrightarrow>
     int (length tiles) = Level.width lvl * Level.height lvl"
  by (simp add: assembled_def)

lemma createLevelTiles_cell_blank:
  assumes "0 \<le> x + i * Level.width lvl" "x + i * Level.width lvl < int (length mapping)"
    and "mapping ! nat (x + i * Level.width lvl) = 0"
  shows "createLevelTiles_cell lvl mapping ts i x = Inr (blankTile, lvl)"
  using assms by (simp add: createLevelTiles_cell_def blankTile_def Let_def)

lemma createLevelTiles_tile_in_range:
  "createLevelTiles_tile lvl mapping ts i x = Inr t \<Longrightarrow>
     0 \<le> x + i * Level.width lvl \<and> x + i * Level.width lvl < int (length mapping)"
  by (auto simp: createLevelTiles_tile_def createLevelTiles_cell_def Let_def split: if_splits)

lemma createLevelTiles_tile_placed:
  assumes "createLevelTiles_tile lvl mapping ts i x = Inr t"
    and "mapping ! nat (x + i * Level.width lvl) \<noteq> 0"
  shows "\<exists>f img.
           MapToPoint (resolveOrientation lvl) = Some f \<and>
           uint (mapping ! nat (x + i * Level.width lvl)) - 1 < int (length ts) \<and>
           tile.Image (ts ! nat (uint (mapping ! nat (x + i * Level.width lvl)) - 1)) = Some img \<and>
           t = \<lparr>tile.Point =
                  \<lparr>Point.X = Point.X (f \<lparr>Point.X = float32_of_int x, Point.Y = float32_of_int i\<rparr>)
                             + Point.X (Offset lvl),
                   Point.Y = Point.Y (f \<lparr>Point.X = float32_of_int x, Point.Y = float32_of_int i\<rparr>)
                             + Point.Y (Offset lvl)
                             - (Texture_Height img - float32_of_int (Level.TileHeight lvl))\<rparr>,
                tile.Image = Some img, tile.Properties = Map.empty\<rparr>"
proof -
  have "uint (mapping ! nat (x + i * Level.width lvl)) \<noteq> 0"
    using assms(2) by (simp add: uint_0_iff)
  moreover have "0 \<le> uint (mapping ! nat (x + i * Level.width lvl))" by simp
  ultimately have "0 < uint (mapping ! nat (x + i * Level.width lvl))" by linarith
  with assms(1) show ?thesis
    by (auto simp: createLevelTiles_tile_def createLevelTiles_cell_def MapToPosition_resolve Let_def
                   resolveOrientation_fields
             split: if_splits option.splits)
qed


text \<open>The assembly returns as soon as every cell of the grid yields a tile.\<close>

lemma createLevelTiles_cell_of_tile:
  assumes "createLevelTiles_tile lvl0 mapping ts i x = Inr t"
    and "l = lvl0 \<or> l = resolveOrientation lvl0"
  shows "\<exists>l'. createLevelTiles_cell l mapping ts i x = Inr (t, l') \<and>
              (l' = lvl0 \<or> l' = resolveOrientation lvl0)"
proof -
  from assms have "createLevelTiles_tile l mapping ts i x = Inr t"
    by (auto simp: createLevelTiles_tile_resolve)
  then obtain l' where c: "createLevelTiles_cell l mapping ts i x = Inr (t, l')"
    by (cases "createLevelTiles_cell l mapping ts i x") (auto simp: createLevelTiles_tile_def)
  from createLevelTiles_tile_Inr [OF c assms(2)] c show ?thesis by blast
qed

lemma createLevelTiles_row_returns:
  "l = lvl0 \<or> l = resolveOrientation lvl0 \<Longrightarrow>
   (\<forall>x'. x \<le> x' \<and> x' < Level.width lvl0 \<longrightarrow>
      (\<exists>t. createLevelTiles_tile lvl0 mapping ts i x' = Inr t)) \<Longrightarrow>
   \<exists>tm l'. createLevelTiles_row l mapping ts i x tilemap = Inr (tm, l')"
proof (induction l mapping ts i x tilemap rule: createLevelTiles_row.induct)
  case (1 lvl mapping ts i x tilemap)
  have w: "Level.width lvl = Level.width lvl0"
    using "1.prems"(1) by (auto simp: resolveOrientation_fields)
  show ?case
  proof (cases "x < Level.width lvl")
    case False
    then show ?thesis by (simp add: createLevelTiles_row.simps)
  next
    case True
    with w "1.prems"(2) obtain t where "createLevelTiles_tile lvl0 mapping ts i x = Inr t"
      by auto
    from createLevelTiles_cell_of_tile [OF this "1.prems"(1)] obtain l where
      c: "createLevelTiles_cell lvl mapping ts i x = Inr (t, l)" and
      l: "l = lvl0 \<or> l = resolveOrientation lvl0" by blast
    have "\<forall>x'. x + 1 \<le> x' \<and> x' < Level.width lvl0 \<longrightarrow>
            (\<exists>t. createLevelTiles_tile lvl0 mapping ts i x' = Inr t)"
      using "1.prems"(2) by auto
    from "1.IH" [OF True c refl l this] obtain tm l' where
      "createLevelTiles_row l mapping ts i (x + 1) (tilemap @ [t]) = Inr (tm, l')" by blast
    with True c show ?thesis by (simp add: createLevelTiles_row.simps [of lvl])
  qed
qed

lemma createLevelTiles_rows_returns:
  "l = lvl0 \<or> l = resolveOrientation lvl0 \<Longrightarrow>
   (\<forall>i' x'. i \<le> i' \<and> i' < Level.height lvl0 \<and> 0 \<le> x' \<and> x' < Level.width lvl0 \<longrightarrow>
      (\<exists>t. createLevelTiles_tile lvl0 mapping ts i' x' = Inr t)) \<Longrightarrow>
   \<exists>tm l'. createLevelTiles_rows l mapping ts i tilemap = Inr (tm, l')"
proof (induction l mapping ts i tilemap rule: createLevelTiles_rows.induct)
  case (1 lvl mapping ts i tilemap)
  have h: "Level.height lvl = Level.height lvl0"
    using "1.prems"(1) by (auto simp: resolveOrientation_fields)
  show ?case
  proof (cases "i < Level.height lvl")
    case False
    then show ?thesis by (simp add: createLevelTiles_rows.simps)
  next
    case True
    with h "1.prems"(2) have "\<forall>x'. 0 \<le> x' \<and> x' < Level.width lvl0 \<longrightarrow>
            (\<exists>t. createLevelTiles_tile lvl0 mapping ts i x' = Inr t)"
      by auto
    from createLevelTiles_row_returns [OF "1.prems"(1) this] obtain tm l where
      row: "createLevelTiles_row lvl mapping ts i 0 tilemap = Inr (tm, l)" by blast
    from createLevelTiles_row_spec [OF row "1.prems"(1)]
    have l: "l = lvl0 \<or> l = resolveOrientation lvl0" by simp
    have "\<forall>i' x'. i + 1 \<le> i' \<and> i' < Level.height lvl0 \<and> 0 \<le> x' \<and> x' < Level.width lvl0 \<longrightarrow>
            (\<exists>t. createLevelTiles_tile lvl0 mapping ts i' x' = Inr t)"
      using "1.prems"(2) by auto
    from "1.IH" [OF True row refl l this] obtain tm' l' where
      "createLevelTiles_rows l mapping ts (i + 1) tm = Inr (tm', l')" by blast
    with True row show ?thesis by (simp add: createLevelTiles_rows.simps [of lvl])
  qed
qed

lemma createLevelTiles_layers_returns:
  "l = lvl0 \<or> l = resolveOrientation lvl0 \<Longrightarrow>
   (\<forall>layer\<in>set layers. \<forall>i x.
      0 \<le> i \<and> i < Level.height lvl0 \<and> 0 \<le> x \<and> x < Level.width lvl0 \<longrightarrow>
      (\<exists>t. createLevelTiles_tile lvl0 (TileMapping layer) ts i x = Inr t)) \<Longrightarrow>
   \<exists>tls l'. createLevelTiles_layers l layers ts acc = Inr (tls, l')"
proof (induction layers arbitrary: l acc)
  case Nil
  then show ?case by simp
next
  case (Cons layer layers)
  from Cons.prems(2) have "\<forall>i' x'. 0 \<le> i' \<and> i' < Level.height lvl0 \<and> 0 \<le> x' \<and> x' < Level.width lvl0 \<longrightarrow>
            (\<exists>t. createLevelTiles_tile lvl0 (TileMapping layer) ts i' x' = Inr t)"
    by simp
  from createLevelTiles_rows_returns [OF Cons.prems(1) this] obtain tm l1 where
    rows: "createLevelTiles_rows l (TileMapping layer) ts 0 [] = Inr (tm, l1)" by blast
  from createLevelTiles_rows_assembled [OF rows Cons.prems(1)]
  have l1: "l1 = lvl0 \<or> l1 = resolveOrientation lvl0" by simp
  have "\<forall>layer\<in>set layers. \<forall>i x.
      0 \<le> i \<and> i < Level.height lvl0 \<and> 0 \<le> x \<and> x < Level.width lvl0 \<longrightarrow>
      (\<exists>t. createLevelTiles_tile lvl0 (TileMapping layer) ts i x = Inr t)"
    using Cons.prems(2) by simp
  from Cons.IH [OF l1 this] rows show ?case by simp
qed


text \<open>The assembler has no error result: when it fails, it fails by a panic.\<close>

lemma createLevelTiles_cell_panics:
  "createLevelTiles_cell lvl mapping ts i x = Inl e \<Longrightarrow> \<exists>p. e = Panic p"
  by (auto simp: createLevelTiles_cell_def Let_def
           split: if_splits prod.splits sum.splits failure.splits option.splits)

lemma createLevelTiles_row_panics:
  "createLevelTiles_row lvl mapping ts i x tilemap = Inl e \<Longrightarrow> \<exists>p. e = Panic p"
proof (induction lvl mapping ts i x tilemap rule: createLevelTiles_row.induct)
  case (1 lvl mapping ts i x tilemap)
  show ?case
  proof (cases "x < Level.width lvl")
    case False
    with "1.prems" show ?thesis by (simp add: createLevelTiles_row.simps)
  next
    case True
    show ?thesis
    proof (cases "createLevelTiles_cell lvl mapping ts i x")
      case (Inl e')
      with True "1.prems" have "e' = e" by (simp add: createLevelTiles_row.simps [of lvl])
      with Inl show ?thesis by (auto dest: createLevelTiles_cell_panics)
    next
      case (Inr r)
      obtain t l where r: "r = (t, l)" by (cases r)
      with Inr True "1.prems"
      have "createLevelTiles_row l mapping ts i (x + 1) (tilemap @ [t]) = Inl e"
        by (simp add: createLevelTiles_row.simps [of lvl])
      with "1.IH" [OF True] Inr r show ?thesis by blast
    qed
  qed
qed

lemma createLevelTiles_rows_panics:
  "createLevelTiles_rows lvl mapping ts i tilemap = Inl e \<Longrightarrow> \<exists>p. e = Panic p"
proof (induction lvl mapping ts i tilemap rule: createLevelTiles_rows.induct)
  case (1 lvl mapping ts i tilemap)
  show ?case
  proof (cases "i < Level.height lvl")
    case False
    with "1.prems" show ?thesis by (simp add: createLevelTiles_rows.simps)
  next
    case True
    show ?thesis
    proof (cases "createLevelTiles_row lvl mapping ts i 0 tilemap")
      case (Inl e')
      with True "1.prems" have "e' = e" by (simp add: createLevelTiles_rows.simps [of lvl])
      with Inl show ?thesis by (auto dest: createLevelTiles_row_panics)
    next
      case (Inr r)
      obtain tm l where r: "r = (tm, l)" by (cases r)
      with Inr True "1.prems"
      have "createLevelTiles_rows l mapping ts (i + 1) tm = Inl e"
        by (simp add: createLevelTiles_rows.simps [of lvl])
      with "1.IH" [OF True] Inr r show ?thesis by blast
    qed
  qed
qed

lemma createLevelTiles_layers_panics:
  "createLevelTiles_layers lvl layers ts acc = Inl e \<Longrightarrow> \<exists>p. e = Panic p"
proof (induction layers arbitrary: lvl acc)
  case Nil
  then show ?case by simp
next
  case (Cons layer layers)
  show ?case
  proof (cases "createLevelTiles_rows lvl (TileMapping layer) ts 0 []")
    case (Inl e')
    with Cons.prems have "e' = e" by simp
    with Inl show ?thesis by (auto dest: createLevelTiles_rows_panics)
  next
    case (Inr r)
    obtain tm l where r: "r = (tm, l)" by (cases r)
    with Inr Cons.prems Cons.IH show ?thesis by auto
  qed
qed

text \<open>
  A mapping fits a Level and a tileset when it has an entry for every cell of the grid
  and every such entry is 0 or the id of a tile of the tileset that has an image, the
  orientation of the Level being resolvable as soon as one entry is not 0.
\<close>

definition layer_fits :: "Level \<Rightarrow> tile list \<Rightarrow> 32 word list \<Rightarrow> bool" where
  "layer_fits lvl ts mapping \<longleftrightarrow>
     Level.width lvl * Level.height lvl \<le> int (length mapping) \<and>
     (\<forall>idx<nat (Level.width lvl * Level.height lvl).
        mapping ! idx = 0 \<or>
        (uint (mapping ! idx) \<le> int (length ts) \<and>
         tile.Image (ts ! nat (uint (mapping ! idx) - 1)) \<noteq> None \<and>
         MapToPoint (resolveOrientation lvl) \<noteq> None))"

lemma grid_index_bound:
  fixes x i w h :: int
  assumes "0 \<le> x" "x < w" "0 \<le> i" "i < h"
  shows "0 \<le> x + i * w \<and> x + i * w < w * h"
proof -
  have w: "0 \<le> w" using assms(1,2) by simp
  with assms(3) have "0 \<le> i * w" by (rule mult_nonneg_nonneg)
  moreover have "(i + 1) * w \<le> h * w"
    using assms(4) w by (intro mult_right_mono) simp_all
  then have "i * w + w \<le> w * h" by (simp add: algebra_simps)
  ultimately show ?thesis using assms(1,2) by linarith
qed

lemma createLevelTiles_tile_fits:
  assumes "layer_fits lvl ts mapping"
    and "0 \<le> x" "x < Level.width lvl" "0 \<le> i" "i < Level.height lvl"
  shows "\<exists>t. createLevelTiles_tile lvl mapping ts i x = Inr t"
proof -
  let ?idx = "x + i * Level.width lvl"
  from grid_index_bound [OF assms(2-5)]
  have lo: "0 \<le> ?idx" and hi: "?idx < Level.width lvl * Level.height lvl" by simp_all
  from assms(1) hi have len: "?idx < int (length mapping)" by (simp add: layer_fits_def)
  from lo hi have "nat ?idx < nat (Level.width lvl * Level.height lvl)" by simp
  with assms(1) have e: "mapping ! nat ?idx = 0 \<or>
        (uint (mapping ! nat ?idx) \<le> int (length ts) \<and>
         tile.Image (ts ! nat (uint (mapping ! nat ?idx) - 1)) \<noteq> None \<and>
         MapToPoint (resolveOrientation lvl) \<noteq> None)"
    unfolding layer_fits_def by blast
  show ?thesis
  proof (cases "mapping ! nat ?idx = 0")
    case True
    from createLevelTiles_cell_blank [OF lo len True] show ?thesis
      by (simp add: createLevelTiles_tile_def)
  next
    case False
    then have "uint (mapping ! nat ?idx) \<noteq> 0" by (simp add: uint_0_iff)
    moreover have "0 \<le> uint (mapping ! nat ?idx)" by simp
    ultimately have pos: "0 < uint (mapping ! nat ?idx)" by linarith
    from False e obtain img f where
      "uint (mapping ! nat ?idx) \<le> int (length ts)"
      "tile.Image (ts ! nat (uint (mapping ! nat ?idx) - 1)) = Some img"
      "MapToPoint (resolveOrientation lvl) = Some f" by auto
    with lo len pos show ?thesis
      by (simp add: createLevelTiles_tile_def createLevelTiles_cell_def MapToPosition_resolve Let_def)
  qed
qed

subsection \<open>Sample inputs\<close>

text \<open>
  A Level as the TMX loader hands it over: the grid and the tile size filled in, the
  function slots nil, the offset zero, no layers yet.
\<close>

definition level0 :: "string \<Rightarrow> int \<Rightarrow> int \<Rightarrow> int \<Rightarrow> int \<Rightarrow> Level" where
  "level0 orientation tw th w h =
     \<lparr>Orientation = orientation, MapToPoint = None, PointToMap = None, MapMaxBounds = None,
      RenderOrder = ''right-down'', Level.width = w, Level.height = h,
      Offset = \<lparr>Point.X = 0, Point.Y = 0\<rparr>,
      Level.TileWidth = tw, Level.TileHeight = th, NextObjectId = 1,
      TileLayers = [], ImageLayers = [], ObjectLayers = [], Level.Properties = Map.empty\<rparr>"

text \<open>
  A tilesheet of a given pixel size and tile size, and the UV rectangle of a tile
  \<open>(u, v, u2, v2)\<close> with its vertical extent \<open>(v, v2)\<close>.
\<close>

definition sheet0 :: "float32 \<Rightarrow> float32 \<Rightarrow> int \<Rightarrow> int \<Rightarrow> tilesheet" where
  "sheet0 W H tw th =
     \<lparr>tilesheet.Image = \<lparr>Texture = 7, TextureResource.Width = W, TextureResource.Height = H\<rparr>,
      tilesheet.TileWidth = tw, tilesheet.TileHeight = th, Firstgid = 1,
      tilesheet.Properties = Map.empty\<rparr>"

definition uv :: "tile \<Rightarrow> (float32 \<times> float32 \<times> float32 \<times> float32) option" where
  "uv t = map_option (\<lambda>img. (Point.X (Min (viewport img)), Point.Y (Min (viewport img)),
                               Point.X (Max (viewport img)), Point.Y (Max (viewport img))))
            (tile.Image t)"

definition v_extent :: "tile \<Rightarrow> (float32 \<times> float32) option" where
  "v_extent t = map_option (\<lambda>(u, v, u2, v2). (v, v2)) (uv t)"

text \<open>
  A layer with a given mapping and declared size, and a tile of the tileset with an image
  of a given pixel size.
\<close>

definition layer0 :: "32 word list \<Rightarrow> int \<Rightarrow> int \<Rightarrow> layer" where
  "layer0 mapping w h =
     \<lparr>layer.Name = ''ground'', layer.Width = w, layer.Height = h, TileMapping = mapping,
      layer.Properties = Map.empty\<rparr>"

definition atlasTile :: "float32 \<Rightarrow> float32 \<Rightarrow> tile" where
  "atlasTile w h =
     \<lparr>tile.Point = \<lparr>Point.X = 0, Point.Y = 0\<rparr>,
      tile.Image = Some \<lparr>id_gl = 7, Texture.width = w, Texture.height = h,
                          viewport = \<lparr>Min = \<lparr>Point.X = 0, Point.Y = 0\<rparr>,
                                      Max = \<lparr>Point.X = 1, Point.Y = 1\<rparr>\<rparr>\<rparr>,
      tile.Properties = Map.empty\<rparr>"

section \<open>Properties\<close>

subsection \<open>Orientation strategies\<close>





text \<open>
  C2. On an isometric Level with positive tile size, \<open>MapToPoint\<close> first overwrites
  \<open>x\<close> with \<open>x' = (x - y) * hw\<close> and then computes \<open>y' = (x' + y) * hh\<close> from the
  overwritten \<open>x\<close>; \<open>hw\<close> and \<open>hh\<close> are the integer halves of the tile width and
  height.
\<close>

theorem isometric_mapToPoint_mutated_x:
  assumes "Orientation lvl = ''isometric''"
    and "0 < Level.TileWidth lvl" and "0 < Level.TileHeight lvl"
  shows "\<exists>m lvl'.
           setupOrientation lvl = (None, lvl') \<and> MapToPoint lvl' = Some m \<and>
           (\<forall>x y. m \<lparr>Point.X = x, Point.Y = y\<rparr> =
              (let hw = float32_of_int (Level.TileWidth lvl div 2);
                   hh = float32_of_int (Level.TileHeight lvl div 2);
                   x' = (x - y) * hw;
                   y' = (x' + y) * hh
               in \<lparr>Point.X = x', Point.Y = y'\<rparr>))"
  using assms
  by (simp add: setupOrientation_def isometricMapToPoint_def Let_def signed_divide_int_def
                sgn_if)

theorem isometric_mapToPoint_mutated_x_witness:
  "Orientation (level0 ''isometric'' 32 32 4 4) = ''isometric'' \<and>
   0 < Level.TileWidth (level0 ''isometric'' 32 32 4 4) \<and>
   0 < Level.TileHeight (level0 ''isometric'' 32 32 4 4) \<and>
   (\<exists>m lvl'.
      setupOrientation (level0 ''isometric'' 32 32 4 4) = (None, lvl') \<and>
      MapToPoint lvl' = Some m \<and>
      m \<lparr>Point.X = 1, Point.Y = 0\<rparr> = \<lparr>Point.X = 16, Point.Y = 256\<rparr>)"
proof -
  have o: "Orientation (level0 ''isometric'' 32 32 4 4) = ''isometric''"
    and w: "0 < Level.TileWidth (level0 ''isometric'' 32 32 4 4)"
    and h: "0 < Level.TileHeight (level0 ''isometric'' 32 32 4 4)"
    by (simp_all add: level0_def)
  from isometric_mapToPoint_mutated_x [OF o w h] obtain m lvl' where
    s: "setupOrientation (level0 ''isometric'' 32 32 4 4) = (None, lvl')" "MapToPoint lvl' = Some m"
    and m: "\<And>x y. m \<lparr>Point.X = x, Point.Y = y\<rparr> =
              (let hw = float32_of_int (Level.TileWidth (level0 ''isometric'' 32 32 4 4) div 2);
                   hh = float32_of_int (Level.TileHeight (level0 ''isometric'' 32 32 4 4) div 2);
                   x' = (x - y) * hw;
                   y' = (x' + y) * hh
               in \<lparr>Point.X = x', Point.Y = y'\<rparr>)"
    by blast
  have "m \<lparr>Point.X = 1, Point.Y = 0\<rparr> = \<lparr>Point.X = 16, Point.Y = 256\<rparr>"
    by (simp add: m level0_def float32_of_int_def Let_def)
  with o w h s show ?thesis by blast
qed

text \<open>
  What the staggered \<open>MapToPoint\<close> does on every row: the test \<open>int(m.Y)%2 == 1\<close>
  truncates toward zero and takes a remainder with the sign of the dividend, so the
  half-tile shift is applied exactly on the rows \<open>y \<ge> 0\<close> whose floor is odd.
\<close>

lemma smod_2_nonneg: "0 \<le> k \<Longrightarrow> k smod 2 = k mod 2" for k :: int
  by (cases "k = 0") (simp_all add: signed_modulo_int_def)

lemma smod_2_nonpos: "k \<le> 0 \<Longrightarrow> k smod 2 \<noteq> 1" for k :: int
proof (cases "k = 0")
  case True
  then show ?thesis by simp
next
  case False
  assume "k \<le> 0"
  with False have "sgn k = - 1" by simp
  then have "k smod 2 = - (\<bar>k\<bar> mod 2)" by (simp add: signed_modulo_int_def)
  moreover have "0 \<le> \<bar>k\<bar> mod 2" by simp
  ultimately show ?thesis by linarith
qed

lemma staggeredMapToPoint_rows:
  "staggeredMapToPoint tw hw hh \<lparr>Point.X = x, Point.Y = y\<rparr> =
     \<lparr>Point.X = x * tw + (if 0 \<le> y \<and> odd \<lfloor>y\<rfloor> then hw else 0), Point.Y = y * hh\<rparr>"
proof (cases "0 \<le> y")
  case True
  then have "0 \<le> \<lfloor>y\<rfloor>" by simp
  then have "\<lfloor>y\<rfloor> smod 2 = \<lfloor>y\<rfloor> mod 2" by (rule smod_2_nonneg)
  with True show ?thesis
    by (simp add: staggeredMapToPoint_def int_of_float32_def Let_def odd_iff_mod_2_eq_one)
next
  case False
  then have "\<lceil>y\<rceil> \<le> 0" by (simp add: ceiling_le_zero)
  then have "\<lceil>y\<rceil> smod 2 \<noteq> 1" by (rule smod_2_nonpos)
  with False show ?thesis
    by (simp add: staggeredMapToPoint_def int_of_float32_def Let_def)
qed

text \<open>
  C3. The claim gives the half-tile shift \<open>hw\<close> to every row whose floor is odd, negative
  rows included. On the staggered Level with 32 by 32 tiles, the cell \<open>(0, -1)\<close> lies on
  the odd row \<open>-1\<close> and is mapped to \<open>(0, -16)\<close>, without the shift: the claim asks for
  \<open>(16, -16)\<close>.
\<close>

theorem staggered_negative_odd_row_unshifted:
  "fst (MapToPosition (level0 ''staggered'' 32 32 4 4) \<lparr>Point.X = 0, Point.Y = - 1\<rparr>)
     = Inr \<lparr>Point.X = 0, Point.Y = - 16\<rparr> \<and> odd \<lfloor>- 1 :: rat\<rfloor>"
  by code_simp

text \<open>
  On an orthogonal Level the two closures are inverse to each other, in the exact
  arithmetic of the model.
\<close>

lemma orthogonal_round_trip:
  assumes "tw \<noteq> 0" and "th \<noteq> 0"
  shows "orthogonalPointToMap tw th (orthogonalMapToPoint tw th c) = c"
  using assms
  by (cases c) (simp add: orthogonalPointToMap_def orthogonalMapToPoint_def Let_def)

text \<open>
  C4. The claim has \<open>PointToMap\<close> undo \<open>MapToPoint\<close> on orthogonal and isometric Levels.
  On the isometric Level with 32 by 32 tiles the cell \<open>(1, 0)\<close> is mapped to the point
  \<open>(16, 256)\<close>, and that point is mapped back to the cell \<open>(17/2, 495/64)\<close>: both
  closures read the \<open>x\<close> they have just overwritten.
\<close>

theorem isometric_round_trip_lost:
  "(case MapToPosition (level0 ''isometric'' 32 32 4 4) \<lparr>Point.X = 1, Point.Y = 0\<rparr> of
      (Inr pt, l) \<Rightarrow> pt = \<lparr>Point.X = 16, Point.Y = 256\<rparr> \<and>
                     fst (PositionToMap l pt) = Inr \<lparr>Point.X = 17 / 2, Point.Y = 495 / 64\<rparr>
    | (Inl e, l) \<Rightarrow> False)"
  by code_simp

subsection \<open>Unsupported orientation\<close>

text \<open>
  C9. On a Level whose orientation is none of the three known strings and whose three
  function slots are unset, \<open>MapToPosition\<close> and \<open>PositionToMap\<close> return the
  unsupported-orientation error and the Level exactly as it was, so the slots are still
  unset; once the orientation string is one of the three, both calls succeed.
\<close>

theorem unsupported_orientation:
  assumes "Orientation lvl \<notin> {''orthogonal'', ''isometric'', ''staggered''}"
    and "MapToPoint lvl = None" and "PointToMap lvl = None" and "MapMaxBounds lvl = None"
  shows "MapToPosition lvl mp = (Inl (UnsupportedOrientation (Orientation lvl)), lvl) \<and>
         PositionToMap lvl p = (Inl (UnsupportedOrientation (Orientation lvl)), lvl) \<and>
         MapToPoint (snd (MapToPosition lvl mp)) = None \<and>
         PointToMap (snd (MapToPosition lvl mp)) = None \<and>
         MapMaxBounds (snd (MapToPosition lvl mp)) = None \<and>
         (\<forall>s\<in>{''orthogonal'', ''isometric'', ''staggered''}.
            \<exists>pt c l1 l2.
              MapToPosition (lvl\<lparr>Orientation := s\<rparr>) mp = (Inr pt, l1) \<and>
              PositionToMap (lvl\<lparr>Orientation := s\<rparr>) p = (Inr c, l2))"
  using assms
  by (auto simp: MapToPosition_def PositionToMap_def setupOrientation_def callPointFn_def Let_def)

theorem unsupported_orientation_witness:
  "Orientation (level0 ''hexagonal'' 32 32 4 4) \<notin> {''orthogonal'', ''isometric'', ''staggered''} \<and>
   MapToPoint (level0 ''hexagonal'' 32 32 4 4) = None \<and>
   PointToMap (level0 ''hexagonal'' 32 32 4 4) = None \<and>
   MapMaxBounds (level0 ''hexagonal'' 32 32 4 4) = None \<and>
   MapToPosition (level0 ''hexagonal'' 32 32 4 4) \<lparr>Point.X = 1, Point.Y = 2\<rparr>
     = (Inl (UnsupportedOrientation ''hexagonal''), level0 ''hexagonal'' 32 32 4 4) \<and>
   PositionToMap (level0 ''hexagonal'' 32 32 4 4) \<lparr>Point.X = 32, Point.Y = 64\<rparr>
     = (Inl (UnsupportedOrientation ''hexagonal''), level0 ''hexagonal'' 32 32 4 4) \<and>
   fst (MapToPosition ((level0 ''hexagonal'' 32 32 4 4)\<lparr>Orientation := ''orthogonal''\<rparr>)
          \<lparr>Point.X = 1, Point.Y = 2\<rparr>) = Inr \<lparr>Point.X = 32, Point.Y = 64\<rparr>"
proof -
  have o: "Orientation (level0 ''hexagonal'' 32 32 4 4) \<notin> {''orthogonal'', ''isometric'', ''staggered''}"
    and m: "MapToPoint (level0 ''hexagonal'' 32 32 4 4) = None"
    and p: "PointToMap (level0 ''hexagonal'' 32 32 4 4) = None"
    and b: "MapMaxBounds (level0 ''hexagonal'' 32 32 4 4) = None"
    by (simp_all add: level0_def)
  have r: "fst (MapToPosition ((level0 ''hexagonal'' 32 32 4 4)\<lparr>Orientation := ''orthogonal''\<rparr>)
          \<lparr>Point.X = 1, Point.Y = 2\<rparr>) = Inr \<lparr>Point.X = 32, Point.Y = 64\<rparr>"
    by (simp add: level0_def MapToPosition_def setupOrientation_def callPointFn_def Let_def
                  orthogonalMapToPoint_def float32_of_int_def)
  from unsupported_orientation [OF o m p b, of "\<lparr>Point.X = 1, Point.Y = 2\<rparr>" "\<lparr>Point.X = 32, Point.Y = 64\<rparr>"]
  have "MapToPosition (level0 ''hexagonal'' 32 32 4 4) \<lparr>Point.X = 1, Point.Y = 2\<rparr>
          = (Inl (UnsupportedOrientation (Orientation (level0 ''hexagonal'' 32 32 4 4))), level0 ''hexagonal'' 32 32 4 4)"
    and "PositionToMap (level0 ''hexagonal'' 32 32 4 4) \<lparr>Point.X = 32, Point.Y = 64\<rparr>
          = (Inl (UnsupportedOrientation (Orientation (level0 ''hexagonal'' 32 32 4 4))), level0 ''hexagonal'' 32 32 4 4)"
    by simp_all
  moreover have "Orientation (level0 ''hexagonal'' 32 32 4 4) = ''hexagonal''"
    by (simp add: level0_def)
  ultimately show ?thesis using o m p b r by simp
qed

subsection \<open>Atlas slicing\<close>

text \<open>
  The 128 by 64 sheet with 32 by 32 tiles: eight tiles, four to a row, each a quarter
  wide and a half high in UV space, tile 0 at \<open>(0, 0)\<close> and tile 4 at \<open>(0, 1/2)\<close>.
\<close>

lemma createTileset_128x64:
  "map_sum id (map uv) (createTileset (level0 ''orthogonal'' 32 32 4 2) [sheet0 128 64 32 32]) =
     Inr [Some (0, 0, 1/4, 1/2), Some (1/4, 0, 1/2, 1/2), Some (1/2, 0, 3/4, 1/2), Some (3/4, 0, 1, 1/2),
          Some (0, 1/2, 1/4, 1), Some (1/4, 1/2, 1/2, 1), Some (1/2, 1/2, 3/4, 1), Some (3/4, 1/2, 1, 1)]"
  by code_simp

text \<open>
  On a sheet whose pixel size is \<open>a\<close> tiles by \<open>b\<close> tiles exactly, the slicer appends
  \<open>a * b\<close> tiles, tile \<open>j\<close> in column \<open>j mod a\<close> and row \<open>j div a\<close> with the UV
  rectangle \<open>(x/W, y/H, (x + tw)/W, (y + th)/H)\<close>.
\<close>

lemma int_of_float32_of_int: "int_of_float32 (of_int k) = k"
  by (simp add: int_of_float32_def)

lemma sdiv_smod_nonneg:
  "0 \<le> i \<Longrightarrow> 0 < a \<Longrightarrow> i sdiv a = i div a \<and> i smod a = i mod a" for i a :: int
  by (cases "i = 0") (simp_all add: signed_divide_int_def signed_modulo_int_def)

lemma createTileset_tiles_spec:
  "int_of_float32 setWidth \<noteq> 0 \<Longrightarrow>
   \<exists>new. createTileset_tiles sheet setWidth totalTiles i tileset = Inr (tileset @ new) \<and>
         length new = nat (totalTiles - i) \<and>
         (\<forall>j<length new. createTileset_tile sheet setWidth (i + int j) = Inr (new ! j))"
proof (induction sheet setWidth totalTiles i tileset rule: createTileset_tiles.induct)
  case (1 sheet setWidth totalTiles i tileset)
  show ?case
  proof (cases "i < totalTiles")
    case False
    then show ?thesis by (simp add: createTileset_tiles.simps)
  next
    case True
    from "1.prems" obtain t where t: "createTileset_tile sheet setWidth i = Inr t"
      by (simp add: createTileset_tile_def Let_def)
    from "1.IH" [OF True t "1.prems"] obtain new where
      r: "createTileset_tiles sheet setWidth totalTiles (i + 1) (tileset @ [t])
            = Inr ((tileset @ [t]) @ new)" and
      n: "length new = nat (totalTiles - (i + 1))" and
      c: "\<forall>j<length new. createTileset_tile sheet setWidth (i + 1 + int j) = Inr (new ! j)"
      by blast
    have "createTileset_tiles sheet setWidth totalTiles i tileset = Inr (tileset @ (t # new))"
      using True t r by (simp add: createTileset_tiles.simps [of sheet setWidth totalTiles i])
    moreover have "length (t # new) = nat (totalTiles - i)" using n True by simp
    moreover have "createTileset_tile sheet setWidth (i + int j) = Inr ((t # new) ! j)"
      if "j < length (t # new)" for j
    proof (cases j)
      case 0
      with t show ?thesis by simp
    next
      case (Suc k)
      with that have "k < length new" by simp
      with c have a: "createTileset_tile sheet setWidth (i + 1 + int k) = Inr (new ! k)" by blast
      have e: "i + int (Suc k) = i + 1 + int k" by simp
      show ?thesis by (simp only: Suc e nth_Cons_Suc a)
    qed
    ultimately show ?thesis by blast
  qed
qed

lemma createTileset_sheet_multiple:
  assumes tw: "0 < tilesheet.TileWidth sheet" and th: "0 < tilesheet.TileHeight sheet"
    and a: "0 < a" and b: "0 \<le> b"
    and W: "TextureResource.Width (tilesheet.Image sheet) = of_int (a * tilesheet.TileWidth sheet)"
    and H: "TextureResource.Height (tilesheet.Image sheet) = of_int (b * tilesheet.TileHeight sheet)"
  shows "\<exists>new. createTileset_sheet sheet tileset = Inr (tileset @ new) \<and>
           int (length new) = a * b \<and>
           (\<forall>j<length new.
              uv (new ! j) =
                (let x = of_int ((int j mod a) * tilesheet.TileWidth sheet);
                     y = of_int ((int j div a) * tilesheet.TileHeight sheet);
                     tw = of_int (tilesheet.TileWidth sheet);
                     th = of_int (tilesheet.TileHeight sheet);
                     W = TextureResource.Width (tilesheet.Image sheet);
                     H = TextureResource.Height (tilesheet.Image sheet)
                 in Some (x / W, y / H, (x + tw) / W, (y + th) / H)))"
proof -
  let ?tw = "tilesheet.TileWidth sheet" and ?th = "tilesheet.TileHeight sheet"
  have sw: "TextureResource.Width (tilesheet.Image sheet) / float32_of_int ?tw = of_int a"
    using tw by (simp add: W float32_of_int_def)
  have sh: "TextureResource.Height (tilesheet.Image sheet) / float32_of_int ?th = of_int b"
    using th by (simp add: H float32_of_int_def)
  have tot: "int_of_float32 (of_int a * of_int b) = a * b"
    using int_of_float32_of_int [of "a * b"] by simp
  have nz: "int_of_float32 (of_int a) \<noteq> 0"
    using a by (simp add: int_of_float32_of_int)
  from createTileset_tiles_spec [OF nz, of sheet "a * b" 0 tileset] obtain new where
    r: "createTileset_tiles sheet (of_int a) (a * b) 0 tileset = Inr (tileset @ new)" and
    n: "length new = nat (a * b - 0)" and
    c: "\<forall>j<length new. createTileset_tile sheet (of_int a) (0 + int j) = Inr (new ! j)"
    by blast
  have s: "createTileset_sheet sheet tileset = Inr (tileset @ new)"
    unfolding createTileset_sheet_def Let_def sw sh tot by (rule r)
  have len: "int (length new) = a * b" using n a b by simp
  have "uv (new ! j) =
                (let x = of_int ((int j mod a) * ?tw);
                     y = of_int ((int j div a) * ?th);
                     tw = of_int ?tw;
                     th = of_int ?th;
                     W = TextureResource.Width (tilesheet.Image sheet);
                     H = TextureResource.Height (tilesheet.Image sheet)
                 in Some (x / W, y / H, (x + tw) / W, (y + th) / H))"
    if j: "j < length new" for j
  proof -
    from c j have "createTileset_tile sheet (of_int a) (int j) = Inr (new ! j)" by simp
    then have e: "new ! j = projr (createTileset_tile sheet (of_int a) (int j))" by simp
    have d: "int j sdiv a = int j div a" "int j smod a = int j mod a"
      using sdiv_smod_nonneg [of "int j" a] a by simp_all
    show ?thesis
      unfolding e using a
      by (simp add: createTileset_tile_def uv_def Let_def int_of_float32_of_int float32_of_int_def d)
  qed
  with s len show ?thesis by blast
qed

text \<open>
  C5. The claim counts \<open>floor(W/tw) * floor(H/th)\<close> tiles on every sheet and drops partial
  tiles without an error. On the 48 by 64 sheet with 32 by 32 tiles the code counts
  \<open>int(1.5 * 2) = 3\<close> tiles in one column, the third below the sheet (V from 1 to 3/2),
  where the claim counts \<open>1 * 2 = 2\<close>; on the 16 by 64 sheet the column count
  \<open>int(0.5)\<close> is zero and the first tile divides by it.
\<close>

theorem createTileset_non_multiple_sheet:
  "map_sum id (map v_extent) (createTileset (level0 ''orthogonal'' 32 32 4 2) [sheet0 48 64 32 32])
     = Inr [Some (0, 1/2), Some (1/2, 1), Some (1, 3/2)] \<and>
   \<lfloor>48 / 32 :: rat\<rfloor> * \<lfloor>64 / 32 :: rat\<rfloor> = 2 \<and>
   map_sum id (map v_extent) (createTileset (level0 ''orthogonal'' 32 32 4 2) [sheet0 16 64 32 32])
     = Inl (Panic IntegerDivideByZero)"
  by code_simp

subsection \<open>Layer assembly\<close>

text \<open>
  Three runs of the assembler: an oversize tile on a one-cell orthogonal Level, an
  all-blank layer on a Level of unknown orientation with an empty tileset, and a 2 by 2
  layer that declares another size.
\<close>

lemma example_bottom_aligned:
  "createLevelTiles (level0 ''orthogonal'' 32 32 1 1) [layer0 [1] 1 1] [atlasTile 32 48] =
     Inr ([\<lparr>TileLayer.Name = ''ground'', TileLayer.Width = 1, TileLayer.Height = 1,
            Tiles = [\<lparr>tile.Point = \<lparr>Point.X = 0, Point.Y = - 16\<rparr>,
                      tile.Image = tile.Image (atlasTile 32 48),
                      tile.Properties = Map.empty\<rparr>],
            TileLayer.Properties = Map.empty\<rparr>],
          resolveOrientation (level0 ''orthogonal'' 32 32 1 1))"
  by (simp add: createLevelTiles_def createLevelTiles_rows.simps createLevelTiles_row.simps
                createLevelTiles_cell_def MapToPosition_resolve resolveOrientation_def
                setupOrientation_def orthogonalMapToPoint_def level0_def layer0_def atlasTile_def
                Texture_Height_def float32_of_int_def Let_def)

lemma example_blank_layer:
  "createLevelTiles (level0 ''hexagonal'' 32 32 2 1) [layer0 [0, 0] 2 1] [] =
     Inr ([\<lparr>TileLayer.Name = ''ground'', TileLayer.Width = 2, TileLayer.Height = 1,
            Tiles = [blankTile, blankTile], TileLayer.Properties = Map.empty\<rparr>],
          level0 ''hexagonal'' 32 32 2 1)"
  by (simp add: createLevelTiles_def createLevelTiles_rows.simps createLevelTiles_row.simps
                createLevelTiles_cell_def level0_def layer0_def blankTile_def Let_def)

lemma example_fits:
  "layer_fits (level0 ''orthogonal'' 32 32 2 2) [atlasTile 32 32, atlasTile 32 48]
     (TileMapping (layer0 [1, 0, 0, 2] 7 9))"
proof -
  let ?L = "level0 ''orthogonal'' 32 32 2 2"
  let ?m = "[1, 0, 0, 2] :: 32 word list"
  let ?ts = "[atlasTile 32 32, atlasTile 32 48]"
  have r: "MapToPoint (resolveOrientation ?L) \<noteq> None"
    by (simp add: resolveOrientation_def setupOrientation_def level0_def Let_def)
  have "?m ! idx = 0 \<or>
        (uint (?m ! idx) \<le> int (length ?ts) \<and>
         tile.Image (?ts ! nat (uint (?m ! idx) - 1)) \<noteq> None \<and>
         MapToPoint (resolveOrientation ?L) \<noteq> None)"
    if "idx < 4" for idx
  proof -
    from that consider "idx = 0" | "idx = 1" | "idx = 2" | "idx = 3" by arith
    then show ?thesis using r by cases (simp_all add: atlasTile_def)
  qed
  then show ?thesis
    by (simp add: layer_fits_def level0_def layer0_def)
qed

text \<open>
  C6. In every layer that \<open>createLevelTiles\<close> returns, the tile of a cell \<open>(x, i)\<close>
  of the grid whose mapping entry is not 0 carries the image of the tileset entry and
  the position \<open>f (x, i) + Offset\<close>, with \<open>Texture_Height img - TileHeight\<close>
  subtracted from its y, where \<open>f\<close> is the \<open>MapToPoint\<close> function resolved for the
  Level. The instance after it is the 48 pixel high tile at cell \<open>(0, 0)\<close> of an
  orthogonal Level with 32 pixel tiles and zero offset, placed at \<open>y = -16\<close>.
\<close>

theorem bottom_aligned_position:
  assumes "createLevelTiles lvl layers ts = Inr (tls, lvl')"
    and "k < length layers"
    and "0 \<le> x" "x < Level.width lvl" "0 \<le> i" "i < Level.height lvl"
    and "TileMapping (layers ! k) ! nat (x + i * Level.width lvl) \<noteq> 0"
  shows "\<exists>f img.
           MapToPoint (resolveOrientation lvl) = Some f \<and>
           tile.Image (ts ! nat (uint (TileMapping (layers ! k) ! nat (x + i * Level.width lvl)) - 1))
             = Some img \<and>
           Tiles (tls ! k) ! nat (x + i * Level.width lvl) =
             \<lparr>tile.Point =
                \<lparr>Point.X = Point.X (f \<lparr>Point.X = float32_of_int x, Point.Y = float32_of_int i\<rparr>)
                           + Point.X (Offset lvl),
                 Point.Y = Point.Y (f \<lparr>Point.X = float32_of_int x, Point.Y = float32_of_int i\<rparr>)
                           + Point.Y (Offset lvl)
                           - (Texture_Height img - float32_of_int (Level.TileHeight lvl))\<rparr>,
              tile.Image = Some img, tile.Properties = Map.empty\<rparr>"
proof -
  from createLevelTiles_spec [OF assms(1)] assms(2)
  have "assembled lvl (TileMapping (layers ! k)) ts (Tiles (tls ! k))" by blast
  from assembled_nth [OF this assms(3-6)]
  have "createLevelTiles_tile lvl (TileMapping (layers ! k)) ts i x
          = Inr (Tiles (tls ! k) ! nat (x + i * Level.width lvl))" .
  from createLevelTiles_tile_placed [OF this assms(7)] show ?thesis by blast
qed

theorem bottom_aligned_position_witness:
  "(\<exists>tls lvl'.
      createLevelTiles (level0 ''orthogonal'' 32 32 1 1) [layer0 [1] 1 1] [atlasTile 32 48]
        = Inr (tls, lvl') \<and>
      tile.Point (Tiles (tls ! 0) ! nat (0 + 0 * Level.width (level0 ''orthogonal'' 32 32 1 1)))
        = \<lparr>Point.X = 0, Point.Y = - 16\<rparr>) \<and>
   (0::nat) < length [layer0 [1] 1 1] \<and>
   (0::int) < Level.width (level0 ''orthogonal'' 32 32 1 1) \<and>
   (0::int) < Level.height (level0 ''orthogonal'' 32 32 1 1) \<and>
   TileMapping ([layer0 [1] 1 1] ! 0) ! nat (0 + 0 * Level.width (level0 ''orthogonal'' 32 32 1 1)) \<noteq> 0"
proof -
  let ?L = "level0 ''orthogonal'' 32 32 1 1"
  let ?ls = "[layer0 [1] 1 1]"
  let ?ts = "[atlasTile 32 48]"
  obtain tls lvl' where r: "createLevelTiles ?L ?ls ?ts = Inr (tls, lvl')"
    using example_bottom_aligned by blast
  have k: "(0::nat) < length ?ls" by simp
  have w: "(0::int) < Level.width ?L" and h: "(0::int) < Level.height ?L"
    by (simp_all add: level0_def)
  have e: "TileMapping (?ls ! 0) ! nat (0 + 0 * Level.width ?L) \<noteq> 0"
    by (simp add: layer0_def)
  from bottom_aligned_position [OF r k order_refl w order_refl h e] obtain f img where
    f: "MapToPoint (resolveOrientation ?L) = Some f" and
    img: "tile.Image (?ts ! nat (uint (TileMapping (?ls ! 0) ! nat (0 + 0 * Level.width ?L)) - 1))
            = Some img" and
    t: "Tiles (tls ! 0) ! nat (0 + 0 * Level.width ?L) =
             \<lparr>tile.Point =
                \<lparr>Point.X = Point.X (f \<lparr>Point.X = float32_of_int 0, Point.Y = float32_of_int 0\<rparr>)
                           + Point.X (Offset ?L),
                 Point.Y = Point.Y (f \<lparr>Point.X = float32_of_int 0, Point.Y = float32_of_int 0\<rparr>)
                           + Point.Y (Offset ?L)
                           - (Texture_Height img - float32_of_int (Level.TileHeight ?L))\<rparr>,
              tile.Image = Some img, tile.Properties = Map.empty\<rparr>"
    by blast
  from f have f': "f = orthogonalMapToPoint 32 32"
    by (simp add: resolveOrientation_def setupOrientation_def level0_def float32_of_int_def Let_def)
  from img have img': "Texture_Height img = 48"
    by (auto simp: layer0_def atlasTile_def Texture_Height_def)
  have "tile.Point (Tiles (tls ! 0) ! nat (0 + 0 * Level.width ?L)) = \<lparr>Point.X = 0, Point.Y = - 16\<rparr>"
    unfolding t f' img'
    by (simp add: orthogonalMapToPoint_def level0_def float32_of_int_def Let_def)
  with r k w h e show ?thesis by blast
qed

text \<open>
  C7. A cell of the grid whose mapping entry is 0 is blank: the loop body returns the
  zero-valued tile (no image, the zero point) and the Level untouched, whatever the
  tileset and the orientation, so neither is consulted; and that tile is what a returned
  layer holds at the cell's index.
\<close>

theorem blank_cell_untouched:
  assumes "k < length layers"
    and "0 \<le> x" "x < Level.width lvl" "0 \<le> i" "i < Level.height lvl"
    and "x + i * Level.width lvl < int (length (TileMapping (layers ! k)))"
    and "TileMapping (layers ! k) ! nat (x + i * Level.width lvl) = 0"
  shows "createLevelTiles_cell lvl (TileMapping (layers ! k)) ts i x = Inr (blankTile, lvl) \<and>
         tile.Image blankTile = None \<and>
         tile.Point blankTile = \<lparr>Point.X = 0, Point.Y = 0\<rparr> \<and>
         (\<forall>tls lvl'. createLevelTiles lvl layers ts = Inr (tls, lvl') \<longrightarrow>
            Tiles (tls ! k) ! nat (x + i * Level.width lvl) = blankTile)"
proof -
  have "0 \<le> Level.width lvl" using assms(2,3) by simp
  with assms(4) have "0 \<le> i * Level.width lvl" by (rule mult_nonneg_nonneg)
  with assms(2) have idx: "0 \<le> x + i * Level.width lvl" by simp
  from createLevelTiles_cell_blank [OF idx assms(6,7)]
  have c: "createLevelTiles_cell lvl (TileMapping (layers ! k)) ts i x = Inr (blankTile, lvl)" .
  have "Tiles (tls ! k) ! nat (x + i * Level.width lvl) = blankTile"
    if r: "createLevelTiles lvl layers ts = Inr (tls, lvl')" for tls lvl'
  proof -
    from createLevelTiles_spec [OF r] assms(1)
    have "assembled lvl (TileMapping (layers ! k)) ts (Tiles (tls ! k))" by blast
    from assembled_nth [OF this assms(2-5)] c show ?thesis
      by (simp add: createLevelTiles_tile_def)
  qed
  with c show ?thesis by (simp add: blankTile_def)
qed

theorem blank_cell_untouched_witness:
  "(0::nat) < length [layer0 [0, 0] 2 1] \<and>
   (1::int) < Level.width (level0 ''hexagonal'' 32 32 2 1) \<and>
   (0::int) < Level.height (level0 ''hexagonal'' 32 32 2 1) \<and>
   1 + 0 * Level.width (level0 ''hexagonal'' 32 32 2 1)
     < int (length (TileMapping ([layer0 [0, 0] 2 1] ! 0))) \<and>
   TileMapping ([layer0 [0, 0] 2 1] ! 0) ! nat (1 + 0 * Level.width (level0 ''hexagonal'' 32 32 2 1)) = 0 \<and>
   createLevelTiles_cell (level0 ''hexagonal'' 32 32 2 1) (TileMapping ([layer0 [0, 0] 2 1] ! 0)) [] 0 1
     = Inr (blankTile, level0 ''hexagonal'' 32 32 2 1) \<and>
   (\<exists>tls lvl'.
      createLevelTiles (level0 ''hexagonal'' 32 32 2 1) [layer0 [0, 0] 2 1] [] = Inr (tls, lvl') \<and>
      Tiles (tls ! 0) ! nat (1 + 0 * Level.width (level0 ''hexagonal'' 32 32 2 1)) = blankTile)"
proof -
  let ?L = "level0 ''hexagonal'' 32 32 2 1"
  let ?ls = "[layer0 [0, 0] 2 1]"
  have k: "(0::nat) < length ?ls" by simp
  have x: "(0::int) \<le> 1" by simp
  have w: "(1::int) < Level.width ?L" and h: "(0::int) < Level.height ?L"
    by (simp_all add: level0_def)
  have n: "1 + 0 * Level.width ?L < int (length (TileMapping (?ls ! 0)))"
    by (simp add: layer0_def)
  have e: "TileMapping (?ls ! 0) ! nat (1 + 0 * Level.width ?L) = 0"
    by (simp add: layer0_def)
  note b = blank_cell_untouched [OF k x w order_refl h n e, of "[]"]
  obtain tls lvl' where r: "createLevelTiles ?L ?ls [] = Inr (tls, lvl')"
    using example_blank_layer by blast
  with b have "Tiles (tls ! 0) ! nat (1 + 0 * Level.width ?L) = blankTile" by blast
  with b r k w h n e show ?thesis by blast
qed

text \<open>
  C8, as stated, fails: on a one-cell Level whose mapping names tile 1 of an empty
  tileset, \<open>createLevelTiles\<close> ends in the runtime panic of the index expression
  \<open>ts[tileIdx]\<close>, not in an error result.
\<close>

theorem tile_index_out_of_range_is_a_panic:
  "createLevelTiles (level0 ''orthogonal'' 32 32 1 1) [layer0 [1] 1 1] []
     = Inl (Panic IndexOutOfRange) \<and>
   \<not> is_error_result
       (createLevelTiles (level0 ''orthogonal'' 32 32 1 1) [layer0 [1] 1 1] [])"
  by (simp add: createLevelTiles_def createLevelTiles_rows.simps createLevelTiles_row.simps
                createLevelTiles_cell_def level0_def layer0_def Let_def)

text \<open>
  C8, amended. If the mapping entry of a cell of the grid references a tile id whose
  zero-based index is at least the length of the tileset, the loop body panics with an
  index out of range at that cell and \<open>createLevelTiles\<close> does not return: it ends in
  a runtime panic, so no layer, partial or complete, reaches the caller.
\<close>

theorem tile_id_beyond_tileset_panics:
  assumes "k < length layers"
    and "0 \<le> x" "x < Level.width lvl" "0 \<le> i" "i < Level.height lvl"
    and "x + i * Level.width lvl < int (length (TileMapping (layers ! k)))"
    and "int (length ts) \<le> uint (TileMapping (layers ! k) ! nat (x + i * Level.width lvl)) - 1"
  shows "createLevelTiles_cell lvl (TileMapping (layers ! k)) ts i x = Inl (Panic IndexOutOfRange) \<and>
         (\<exists>p. createLevelTiles lvl layers ts = Inl (Panic p))"
proof -
  have "0 \<le> Level.width lvl" using assms(2,3) by simp
  with assms(4) have "0 \<le> i * Level.width lvl" by (rule mult_nonneg_nonneg)
  with assms(2) have idx: "0 \<le> x + i * Level.width lvl" by simp
  have "0 \<le> uint (TileMapping (layers ! k) ! nat (x + i * Level.width lvl)) - 1"
    using assms(7) by simp
  with idx assms(6,7)
  have c: "createLevelTiles_cell lvl (TileMapping (layers ! k)) ts i x = Inl (Panic IndexOutOfRange)"
    by (simp add: createLevelTiles_cell_def Let_def)
  have "\<exists>p. createLevelTiles lvl layers ts = Inl (Panic p)"
  proof (cases "createLevelTiles lvl layers ts")
    case (Inl e)
    then show ?thesis
      using createLevelTiles_layers_panics [of lvl layers ts "[]" e]
      by (auto simp: createLevelTiles_def)
  next
    case (Inr r)
    obtain tls lvl' where "r = (tls, lvl')" by (cases r)
    with Inr have r: "createLevelTiles lvl layers ts = Inr (tls, lvl')" by simp
    from createLevelTiles_spec [OF r] assms(1)
    have "assembled lvl (TileMapping (layers ! k)) ts (Tiles (tls ! k))" by blast
    from assembled_nth [OF this assms(2-5)] c show ?thesis
      by (simp add: createLevelTiles_tile_def)
  qed
  with c show ?thesis by simp
qed

theorem tile_id_beyond_tileset_panics_witness:
  "(0::nat) < length [layer0 [0, 3] 2 1] \<and>
   (1::int) < Level.width (level0 ''orthogonal'' 32 32 2 1) \<and>
   (0::int) < Level.height (level0 ''orthogonal'' 32 32 2 1) \<and>
   1 + 0 * Level.width (level0 ''orthogonal'' 32 32 2 1)
     < int (length (TileMapping ([layer0 [0, 3] 2 1] ! 0))) \<and>
   int (length [atlasTile 32 32, atlasTile 32 48])
     \<le> uint (TileMapping ([layer0 [0, 3] 2 1] ! 0)
                ! nat (1 + 0 * Level.width (level0 ''orthogonal'' 32 32 2 1))) - 1 \<and>
   (\<exists>p. createLevelTiles (level0 ''orthogonal'' 32 32 2 1) [layer0 [0, 3] 2 1]
          [atlasTile 32 32, atlasTile 32 48] = Inl (Panic p))"
proof -
  let ?L = "level0 ''orthogonal'' 32 32 2 1"
  let ?ls = "[layer0 [0, 3] 2 1]"
  let ?ts = "[atlasTile 32 32, atlasTile 32 48]"
  have k: "(0::nat) < length ?ls" by simp
  have x: "(0::int) \<le> 1" by simp
  have w: "(1::int) < Level.width ?L" and h: "(0::int) < Level.height ?L"
    by (simp_all add: level0_def)
  have n: "1 + 0 * Level.width ?L < int (length (TileMapping (?ls ! 0)))"
    by (simp add: layer0_def)
  have e: "int (length ?ts) \<le> uint (TileMapping (?ls ! 0) ! nat (1 + 0 * Level.width ?L)) - 1"
    by (simp add: layer0_def)
  from tile_id_beyond_tileset_panics [OF k x w order_refl h n e] k w h n e
  show ?thesis by blast
qed

text \<open>
  C10, as stated, fails: not every mapping yields a TileLayer, and not every Level yields
  \<open>width * height\<close> tiles. On a one-cell Level a layer with an empty mapping ends in
  the runtime panic of \<open>mapping[idx]\<close>; on a Level with \<open>-1\<close> by \<open>-1\<close> cells the
  product of the counts is 1 and the returned layer has no tile.
\<close>

theorem short_mapping_or_negative_grid:
  "createLevelTiles (level0 ''orthogonal'' 32 32 1 1) [layer0 [] 1 1] [atlasTile 32 32]
     = Inl (Panic IndexOutOfRange) \<and>
   createLevelTiles (level0 ''orthogonal'' 32 32 (- 1) (- 1)) [layer0 [1] 1 1] [atlasTile 32 32]
     = Inr ([\<lparr>TileLayer.Name = ''ground'', TileLayer.Width = 1, TileLayer.Height = 1,
             Tiles = [], TileLayer.Properties = Map.empty\<rparr>],
           level0 ''orthogonal'' 32 32 (- 1) (- 1)) \<and>
   Level.width (level0 ''orthogonal'' 32 32 (- 1) (- 1))
     * Level.height (level0 ''orthogonal'' 32 32 (- 1) (- 1)) = 1"
  by (simp add: createLevelTiles_def createLevelTiles_rows.simps createLevelTiles_row.simps
                createLevelTiles_cell_def level0_def layer0_def Let_def)

text \<open>
  The precondition of the amended claim is the weakest one: on a Level with non-negative
  cell counts the assembler returns only for mappings that fit.
\<close>

lemma createLevelTiles_returns_only_if_fits:
  assumes r: "createLevelTiles lvl layers ts = Inr (tls, lvl')"
    and w: "0 \<le> Level.width lvl" and h: "0 \<le> Level.height lvl"
    and k: "k < length layers"
  shows "layer_fits lvl ts (TileMapping (layers ! k))"
proof -
  let ?m = "TileMapping (layers ! k)"
  let ?w = "Level.width lvl" and ?h = "Level.height lvl"
  from createLevelTiles_spec [OF r] k
  have a: "assembled lvl ?m ts (Tiles (tls ! k))" by blast
  have cell: "idx < length ?m \<and>
        (?m ! idx = 0 \<or>
         (uint (?m ! idx) \<le> int (length ts) \<and>
          tile.Image (ts ! nat (uint (?m ! idx) - 1)) \<noteq> None \<and>
          MapToPoint (resolveOrientation lvl) \<noteq> None))"
    if idx: "idx < nat (?w * ?h)" for idx
  proof -
    from idx have pos: "0 < ?w * ?h" by simp
    with w h have w0: "0 < ?w" and h0: "0 < ?h"
      by (auto simp: zero_less_mult_iff)
    define x where "x = int idx mod ?w"
    define i where "i = int idx div ?w"
    have x: "0 \<le> x" "x < ?w" using w0 by (simp_all add: x_def)
    have i0: "0 \<le> i" using w0 by (simp add: i_def pos_imp_zdiv_nonneg_iff)
    have e: "x + i * ?w = int idx" by (simp add: x_def i_def)
    have lt: "int idx < ?h * ?w" using idx by (simp add: mult.commute)
    have i1: "i < ?h"
    proof (rule ccontr)
      assume "\<not> i < ?h"
      then have "?h \<le> i" by simp
      then have "?h * ?w \<le> i * ?w" using w0 by (intro mult_right_mono) simp_all
      with e x(1) lt show False by linarith
    qed
    from assembled_nth [OF a x i0 i1]
    have t: "createLevelTiles_tile lvl ?m ts i x = Inr (Tiles (tls ! k) ! nat (x + i * ?w))" .
    from createLevelTiles_tile_in_range [OF t] e have len: "idx < length ?m" by simp
    have "?m ! idx = 0 \<or>
         (uint (?m ! idx) \<le> int (length ts) \<and>
          tile.Image (ts ! nat (uint (?m ! idx) - 1)) \<noteq> None \<and>
          MapToPoint (resolveOrientation lvl) \<noteq> None)"
    proof (cases "?m ! idx = 0")
      case True
      then show ?thesis by simp
    next
      case False
      with e have "?m ! nat (x + i * ?w) \<noteq> 0" by simp
      from createLevelTiles_tile_placed [OF t this] e False show ?thesis by auto
    qed
    with len show ?thesis by simp
  qed
  have "?w * ?h \<le> int (length ?m)"
  proof (cases "0 < ?w * ?h")
    case False
    then show ?thesis by simp
  next
    case True
    then have "nat (?w * ?h) - 1 < nat (?w * ?h)" by simp
    from cell [OF this] have "nat (?w * ?h) - 1 < length ?m" by blast
    with True show ?thesis by linarith
  qed
  with cell show ?thesis by (simp add: layer_fits_def)
qed

text \<open>
  C10, amended. On a Level with non-negative cell counts and layers whose mappings fit it
  (an entry for every cell of the grid, each 0 or the id of a tile of the tileset),
  \<open>createLevelTiles\<close> returns one TileLayer per layer; its \<open>Tiles\<close> has exactly
  \<open>width * height\<close> entries, the tile of cell \<open>(x, i)\<close> at index \<open>x + i * width\<close>,
  blank cells included as the blank tile; the declared \<open>Width\<close> and \<open>Height\<close> of the
  layer are copied and play no part in the count.
\<close>

theorem tiles_row_major:
  assumes "0 \<le> Level.width lvl" and "0 \<le> Level.height lvl"
    and "\<forall>layer\<in>set layers. layer_fits lvl ts (TileMapping layer)"
  shows "\<exists>tls lvl'.
           createLevelTiles lvl layers ts = Inr (tls, lvl') \<and> length tls = length layers \<and>
           (\<forall>k<length layers.
              int (length (Tiles (tls ! k))) = Level.width lvl * Level.height lvl \<and>
              TileLayer.Name (tls ! k) = layer.Name (layers ! k) \<and>
              TileLayer.Width (tls ! k) = layer.Width (layers ! k) \<and>
              TileLayer.Height (tls ! k) = layer.Height (layers ! k) \<and>
              (\<forall>i x. 0 \<le> i \<and> i < Level.height lvl \<and> 0 \<le> x \<and> x < Level.width lvl \<longrightarrow>
                 createLevelTiles_tile lvl (TileMapping (layers ! k)) ts i x
                   = Inr (Tiles (tls ! k) ! nat (x + i * Level.width lvl)) \<and>
                 (TileMapping (layers ! k) ! nat (x + i * Level.width lvl) = 0 \<longrightarrow>
                    Tiles (tls ! k) ! nat (x + i * Level.width lvl) = blankTile)))"
proof -
  have "\<forall>layer\<in>set layers. \<forall>i x.
      0 \<le> i \<and> i < Level.height lvl \<and> 0 \<le> x \<and> x < Level.width lvl \<longrightarrow>
      (\<exists>t. createLevelTiles_tile lvl (TileMapping layer) ts i x = Inr t)"
    using assms(3) by (auto intro: createLevelTiles_tile_fits)
  from createLevelTiles_layers_returns [of lvl lvl layers ts "[]", OF _ this]
  obtain tls lvl' where r: "createLevelTiles lvl layers ts = Inr (tls, lvl')"
    by (auto simp: createLevelTiles_def)
  note spec = createLevelTiles_spec [OF r]
  have "int (length (Tiles (tls ! k))) = Level.width lvl * Level.height lvl \<and>
        TileLayer.Name (tls ! k) = layer.Name (layers ! k) \<and>
        TileLayer.Width (tls ! k) = layer.Width (layers ! k) \<and>
        TileLayer.Height (tls ! k) = layer.Height (layers ! k) \<and>
        (\<forall>i x. 0 \<le> i \<and> i < Level.height lvl \<and> 0 \<le> x \<and> x < Level.width lvl \<longrightarrow>
           createLevelTiles_tile lvl (TileMapping (layers ! k)) ts i x
             = Inr (Tiles (tls ! k) ! nat (x + i * Level.width lvl)) \<and>
           (TileMapping (layers ! k) ! nat (x + i * Level.width lvl) = 0 \<longrightarrow>
              Tiles (tls ! k) ! nat (x + i * Level.width lvl) = blankTile))"
    if k: "k < length layers" for k
  proof -
    from spec k have a: "assembled lvl (TileMapping (layers ! k)) ts (Tiles (tls ! k))"
      and f: "TileLayer.Name (tls ! k) = layer.Name (layers ! k)"
             "TileLayer.Width (tls ! k) = layer.Width (layers ! k)"
             "TileLayer.Height (tls ! k) = layer.Height (layers ! k)"
      by simp_all
    have cell: "createLevelTiles_tile lvl (TileMapping (layers ! k)) ts i x
             = Inr (Tiles (tls ! k) ! nat (x + i * Level.width lvl)) \<and>
           (TileMapping (layers ! k) ! nat (x + i * Level.width lvl) = 0 \<longrightarrow>
              Tiles (tls ! k) ! nat (x + i * Level.width lvl) = blankTile)"
      if g: "0 \<le> i" "i < Level.height lvl" "0 \<le> x" "x < Level.width lvl" for i x
    proof -
      from assembled_nth [OF a g(3,4,1,2)]
      have t: "createLevelTiles_tile lvl (TileMapping (layers ! k)) ts i x
                 = Inr (Tiles (tls ! k) ! nat (x + i * Level.width lvl))" .
      from createLevelTiles_tile_in_range [OF t]
      have "0 \<le> x + i * Level.width lvl"
        "x + i * Level.width lvl < int (length (TileMapping (layers ! k)))" by simp_all
      from createLevelTiles_cell_blank [OF this, of ts] t
      have "TileMapping (layers ! k) ! nat (x + i * Level.width lvl) = 0 \<longrightarrow>
              Tiles (tls ! k) ! nat (x + i * Level.width lvl) = blankTile"
        by (auto simp: createLevelTiles_tile_def)
      with t show ?thesis by simp
    qed
    from assembled_length [OF a assms(1,2)] f cell show ?thesis by blast
  qed
  with r spec show ?thesis by blast
qed

theorem tiles_row_major_witness:
  "0 \<le> Level.width (level0 ''orthogonal'' 32 32 2 2) \<and>
   0 \<le> Level.height (level0 ''orthogonal'' 32 32 2 2) \<and>
   layer_fits (level0 ''orthogonal'' 32 32 2 2) [atlasTile 32 32, atlasTile 32 48]
     (TileMapping (layer0 [1, 0, 0, 2] 7 9)) \<and>
   (\<exists>tls lvl'.
      createLevelTiles (level0 ''orthogonal'' 32 32 2 2) [layer0 [1, 0, 0, 2] 7 9]
        [atlasTile 32 32, atlasTile 32 48] = Inr (tls, lvl') \<and>
      length tls = 1 \<and>
      length (Tiles (tls ! 0)) = 4 \<and>
      TileLayer.Width (tls ! 0) = 7 \<and> TileLayer.Height (tls ! 0) = 9 \<and>
      Tiles (tls ! 0) ! 1 = blankTile \<and> Tiles (tls ! 0) ! 2 = blankTile \<and>
      createLevelTiles_tile (level0 ''orthogonal'' 32 32 2 2) [1, 0, 0, 2]
        [atlasTile 32 32, atlasTile 32 48] 1 1 = Inr (Tiles (tls ! 0) ! 3) \<and>
      tile.Point (Tiles (tls ! 0) ! 3) = \<lparr>Point.X = 32, Point.Y = 16\<rparr>)"
proof -
  let ?L = "level0 ''orthogonal'' 32 32 2 2"
  let ?m = "[1, 0, 0, 2] :: 32 word list"
  let ?ls = "[layer0 ?m 7 9]"
  let ?ts = "[atlasTile 32 32, atlasTile 32 48]"
  have w: "0 \<le> Level.width ?L" and h: "0 \<le> Level.height ?L" by (simp_all add: level0_def)
  have fits: "\<forall>layer\<in>set ?ls. layer_fits ?L ?ts (TileMapping layer)"
    using example_fits by simp
  from tiles_row_major [OF w h fits] obtain tls lvl' where
    r: "createLevelTiles ?L ?ls ?ts = Inr (tls, lvl')" and
    n: "length tls = length ?ls" and
    a: "\<forall>k<length ?ls.
              int (length (Tiles (tls ! k))) = Level.width ?L * Level.height ?L \<and>
              TileLayer.Name (tls ! k) = layer.Name (?ls ! k) \<and>
              TileLayer.Width (tls ! k) = layer.Width (?ls ! k) \<and>
              TileLayer.Height (tls ! k) = layer.Height (?ls ! k) \<and>
              (\<forall>i x. 0 \<le> i \<and> i < Level.height ?L \<and> 0 \<le> x \<and> x < Level.width ?L \<longrightarrow>
                 createLevelTiles_tile ?L (TileMapping (?ls ! k)) ?ts i x
                   = Inr (Tiles (tls ! k) ! nat (x + i * Level.width ?L)) \<and>
                 (TileMapping (?ls ! k) ! nat (x + i * Level.width ?L) = 0 \<longrightarrow>
                    Tiles (tls ! k) ! nat (x + i * Level.width ?L) = blankTile))"
    by blast
  from a have len: "int (length (Tiles (tls ! 0))) = Level.width ?L * Level.height ?L"
    and wd: "TileLayer.Width (tls ! 0) = 7" and ht: "TileLayer.Height (tls ! 0) = 9"
    and cells: "\<And>i x. 0 \<le> i \<Longrightarrow> i < Level.height ?L \<Longrightarrow> 0 \<le> x \<Longrightarrow> x < Level.width ?L \<Longrightarrow>
                 createLevelTiles_tile ?L (TileMapping (?ls ! 0)) ?ts i x
                   = Inr (Tiles (tls ! 0) ! nat (x + i * Level.width ?L)) \<and>
                 (TileMapping (?ls ! 0) ! nat (x + i * Level.width ?L) = 0 \<longrightarrow>
                    Tiles (tls ! 0) ! nat (x + i * Level.width ?L) = blankTile)"
    by (simp_all add: layer0_def)
  from len have l4: "length (Tiles (tls ! 0)) = 4" by (simp add: level0_def)
  from cells [of 0 1] have b1: "Tiles (tls ! 0) ! 1 = blankTile"
    by (simp add: level0_def layer0_def)
  from cells [of 1 0] have b2: "Tiles (tls ! 0) ! 2 = blankTile"
    by (simp add: level0_def layer0_def)
  from cells [of 1 1] have t3: "createLevelTiles_tile ?L ?m ?ts 1 1 = Inr (Tiles (tls ! 0) ! 3)"
    by (simp add: level0_def layer0_def)
  have c3: "createLevelTiles_tile ?L ?m ?ts 1 1 =
          Inr \<lparr>tile.Point = \<lparr>Point.X = 32, Point.Y = 16\<rparr>,
               tile.Image = tile.Image (atlasTile 32 48), tile.Properties = Map.empty\<rparr>"
    by (simp add: createLevelTiles_tile_def createLevelTiles_cell_def MapToPosition_resolve
                  resolveOrientation_def setupOrientation_def orthogonalMapToPoint_def
                  level0_def atlasTile_def Texture_Height_def float32_of_int_def Let_def)
  have "Tiles (tls ! 0) ! 3 =
          \<lparr>tile.Point = \<lparr>Point.X = 32, Point.Y = 16\<rparr>,
           tile.Image = tile.Image (atlasTile 32 48), tile.Properties = Map.empty\<rparr>"
    using t3 unfolding c3 by (simp only: sum.inject)
  then have p3: "tile.Point (Tiles (tls ! 0) ! 3) = \<lparr>Point.X = 32, Point.Y = 16\<rparr>"
    by (simp only: tile.select_convs)
  from n have n1: "length tls = 1" by simp
  from w h example_fits r n1 l4 wd ht b1 b2 t3 p3 show ?thesis by blast
qed

end
